theory Spec2Isabelle
  imports Main
begin

section \<open>JavaScript values and the runtime the code relies on\<close>

text \<open>
  The three source files are JavaScript: \<^verbatim>\<open>apiBridge.js\<close> (the native bridge),
  \<^verbatim>\<open>game-api.js\<close> (the router between bridge and HTTP) and
  \<^verbatim>\<open>puzzle-manager-api.js\<close> (the puzzle store and modal controller).

  Values are finite trees. Numbers are the integers and \<open>NaN\<close>: the code only tests
  numbers for truthiness and prints an HTTP status. A string is a list of characters;
  the code compares strings, joins them and hands them to built-in methods, which are
  parameters below, so nothing rests on how text beyond ASCII is written. An \<open>Error\<close> object carries its
  message. Source literals written in Korean are kept as constructors of their own
  (\<open>BridgeMissing\<close>, the \<open>ui_message\<close> literals, the console entries), each with the
  line it stands for, since nothing below depends on their spelling.
\<close>

datatype errtext =
    ErrText string
  | BridgeMissing string
    \<comment> \<open>apiBridge line 15: the template naming \<^verbatim>\<open>window.Android\<close> and the method\<close>

datatype jsval =
    JUndefined
  | JNull
  | JBool bool
  | JNum int
  | JNaN
  | JStr string
  | JArr "jsval list"
  | JObj "(string \<times> jsval) list"
  | JErr errtext

text \<open>\<^verbatim>\<open>typeof v\<close>.\<close>

fun typeof_js :: "jsval \<Rightarrow> string" where
  "typeof_js JUndefined = ''undefined''"
| "typeof_js JNull = ''object''"
| "typeof_js (JBool b) = ''boolean''"
| "typeof_js (JNum n) = ''number''"
| "typeof_js JNaN = ''number''"
| "typeof_js (JStr s) = ''string''"
| "typeof_js (JArr xs) = ''object''"
| "typeof_js (JObj kvs) = ''object''"
| "typeof_js (JErr m) = ''object''"

text \<open>The value of \<^verbatim>\<open>if (v)\<close>: false, 0, NaN, the empty string, null and undefined are falsy.\<close>

fun truthy :: "jsval \<Rightarrow> bool" where
  "truthy JUndefined = False"
| "truthy JNull = False"
| "truthy (JBool b) = b"
| "truthy (JNum n) = (n \<noteq> 0)"
| "truthy JNaN = False"
| "truthy (JStr s) = (s \<noteq> [])"
| "truthy (JArr xs) = True"
| "truthy (JObj kvs) = True"
| "truthy (JErr m) = True"

text \<open>
  \<^verbatim>\<open>v.name\<close> for a name that no built-in prototype defines: a \<open>TypeError\<close> on null and
  undefined, the own property of an object, \<open>message\<close> of an \<open>Error\<close>, undefined
  otherwise. The left result is the thrown value. (The code reads properties of parsed
  JSON and of the values a call resolves with; an \<open>Error\<close> reaches it as a rejection
  only, and the one whose message is a kept literal has no text to hand out.)
\<close>

fun get_prop :: "jsval \<Rightarrow> string \<Rightarrow> jsval + jsval" where
  "get_prop JUndefined k = Inl (JErr (ErrText ''TypeError''))"
| "get_prop JNull k = Inl (JErr (ErrText ''TypeError''))"
| "get_prop (JObj kvs) k = Inr (case map_of kvs k of None \<Rightarrow> JUndefined | Some v \<Rightarrow> v)"
| "get_prop (JErr (ErrText m)) k = Inr (if k = ''message'' then JStr m else JUndefined)"
| "get_prop v k = Inr JUndefined"

text \<open>The same where the access cannot throw (the value was read from before).\<close>

definition read_prop :: "jsval \<Rightarrow> string \<Rightarrow> jsval" where
  "read_prop v k = (case get_prop v k of Inr x \<Rightarrow> x | Inl e \<Rightarrow> JUndefined)"

text \<open>\<^verbatim>\<open>Array.isArray(v)\<close>.\<close>

fun isArray :: "jsval \<Rightarrow> bool" where
  "isArray (JArr xs) = True"
| "isArray v = False"

text \<open>
  The built-ins the code calls and does not define are parameters: \<^verbatim>\<open>JSON.stringify\<close>
  (which throws on a value with no encoding), \<^verbatim>\<open>JSON.parse\<close> (which converts its
  argument to a string first and throws on a syntax error), the text of a
  \<^verbatim>\<open>URLSearchParams\<close>, and \<^verbatim>\<open>String.prototype.toLowerCase\<close> and
  \<^verbatim>\<open>String.prototype.trim\<close>, whose case mapping and white space are Unicode's. A left
  result is the thrown value.
\<close>

record runtime =
  json_stringify :: "jsval \<Rightarrow> jsval + string"
  json_parse :: "jsval \<Rightarrow> jsval + jsval"
  url_search_params :: "(string \<times> jsval) list \<Rightarrow> string"
  str_toLowerCase :: "string \<Rightarrow> string"
  str_trim :: "string \<Rightarrow> string"

text \<open>A non-negative integer in a template literal: its decimal digits.\<close>

fun show_nat :: "nat \<Rightarrow> string" where
  "show_nat n =
     (if n < 10 then [''0123456789'' ! n]
      else show_nat (n div 10) @ [''0123456789'' ! (n mod 10)])"

section \<open>apiBridge: the native bridge\<close>

text \<open>
  A promise is an index into the list of promise states; settling a promise that is
  already settled does nothing. A global callback is the closure of line 25: it holds the
  \<open>resolve\<close>/\<open>reject\<close> pair of its promise, the method name and the callback name.
\<close>

datatype pstate = Pending | Resolved jsval | Rejected jsval

record callback =
  cb_promise :: nat
  cb_method :: string
  cb_name :: string

text \<open>
  A native method is called synchronously. It returns or throws, and before that it may
  call the callback it was handed (a bridge faked in JavaScript can; the Android bridge
  answers later).
\<close>

datatype native_outcome = Returns | Throws jsval

record native_effect =
  calls_back :: "(jsval \<times> jsval) option"
  outcome :: native_outcome

datatype member =
    Missing
  | NotFunction
  | Function "jsval list \<Rightarrow> native_effect"

datatype console_entry =
    E_bridge_missing string         \<comment> \<open>apiBridge line 16\<close>
  | E_native_api string jsval       \<comment> \<open>apiBridge line 27\<close>
  | E_native_exception string jsval \<comment> \<open>apiBridge line 52\<close>
  | E_api_request_failed jsval      \<comment> \<open>game-api line 60\<close>
  | L_restored                      \<comment> \<open>puzzle-manager-api line 35\<close>
  | E_parse_failed jsval            \<comment> \<open>line 39\<close>
  | L_fetching                      \<comment> \<open>line 45\<close>
  | L_loaded jsval                  \<comment> \<open>line 57\<close>
  | L_saved                         \<comment> \<open>line 64\<close>
  | E_load_failed jsval             \<comment> \<open>line 67\<close>
  | E_check_failed jsval            \<comment> \<open>line 148\<close>
  | L_completed jsval               \<comment> \<open>line 160\<close>
  | E_complete_failed jsval         \<comment> \<open>line 162\<close>
  | L_next_scene jsval              \<comment> \<open>line 214\<close>

text \<open>
  The history records, for the statements below, each registration of a global callback,
  each removal of one that was there, and each call of a native method with the
  arguments it received.
\<close>

datatype history_event =
    Registered string nat
  | Removed string nat
  | NativeCall string "jsval list"

text \<open>
  The page: \<^verbatim>\<open>window.Android\<close> (\<open>None\<close> when it is falsy, otherwise its members by
  name), the global callbacks by name, the promises, the console and the history.
  A callback name starts with \<^verbatim>\<open>__native_callback_\<close>, so it never names
  \<^verbatim>\<open>window.Android\<close> itself.
\<close>

record page =
  android :: "(string \<Rightarrow> member) option"
  globals :: "string \<rightharpoonup> callback"
  promises :: "pstate list"
  console :: "console_entry list"
  history :: "history_event list"

definition settle :: "nat \<Rightarrow> pstate \<Rightarrow> page \<Rightarrow> page" where
  "settle p v st =
     (if p < length (promises st) \<and> promises st ! p = Pending
      then st\<lparr>promises := (promises st)[p := v]\<rparr>
      else st)"

text \<open>\<^verbatim>\<open>delete window[k]\<close>: nothing happens when the property is absent.\<close>

definition delete_global :: "string \<Rightarrow> page \<Rightarrow> page" where
  "delete_global k st =
     (case globals st k of
        None \<Rightarrow> st
      | Some cb \<Rightarrow> st\<lparr>globals := (globals st)(k := None),
                      history := history st @ [Removed k (cb_promise cb)]\<rparr>)"

definition log_console :: "console_entry \<Rightarrow> page \<Rightarrow> page" where
  "log_console e st = st\<lparr>console := console st @ [e]\<rparr>"

text \<open>The closure of lines 25 to 40, called with \<open>(result, error)\<close>.\<close>

definition run_callback :: "runtime \<Rightarrow> callback \<Rightarrow> jsval \<Rightarrow> jsval \<Rightarrow> page \<Rightarrow> page" where
  "run_callback rt cb result error st =
     delete_global (cb_name cb)
       (if truthy error then
          (case json_parse rt error of
             Inr parsed \<Rightarrow>
               settle (cb_promise cb) (Rejected parsed)
                 (log_console (E_native_api (cb_method cb) error) st)
           | Inl e \<Rightarrow>
               settle (cb_promise cb) (Rejected error)
                 (log_console (E_native_api (cb_method cb) error) st))
        else settle (cb_promise cb) (Resolved result) st)"

text \<open>
  The native side evaluating \<^verbatim>\<open>window[name](result, error)\<close>. When nothing is
  registered under the name the call fails on the native side and the page is unchanged.
\<close>

definition invoke_global :: "runtime \<Rightarrow> string \<Rightarrow> jsval \<Rightarrow> jsval \<Rightarrow> page \<Rightarrow> page" where
  "invoke_global rt name result error st =
     (case globals st name of
        None \<Rightarrow> st
      | Some cb \<Rightarrow> run_callback rt cb result error st)"

text \<open>Line 22, with \<open>now\<close> the value of \<^verbatim>\<open>Date.now()\<close>.\<close>

definition callback_name :: "string \<Rightarrow> nat \<Rightarrow> string" where
  "callback_name methodName now = ''__native_callback_'' @ methodName @ ''_'' @ show_nat now"

text \<open>Line 14: the method, when \<^verbatim>\<open>window.Android\<close> is there and the member is a function.\<close>

definition bridge_method :: "page \<Rightarrow> string \<Rightarrow> (jsval list \<Rightarrow> native_effect) option" where
  "bridge_method st methodName =
     (case android st of
        None \<Rightarrow> None
      | Some b \<Rightarrow> (case b methodName of Function f \<Rightarrow> Some f | _ \<Rightarrow> None))"

text \<open>\<^verbatim>\<open>typeof arg === 'object' && arg !== null\<close>.\<close>

definition is_object_arg :: "jsval \<Rightarrow> bool" where
  "is_object_arg a = (typeof_js a = ''object'' \<and> a \<noteq> JNull)"

text \<open>Lines 44 to 46: \<open>args.map\<close>, left to right, stopped by the first throw.\<close>

fun final_args :: "runtime \<Rightarrow> jsval list \<Rightarrow> jsval + jsval list" where
  "final_args rt [] = Inr []"
| "final_args rt (a # as) =
     (if is_object_arg a then
        (case json_stringify rt a of
           Inl e \<Rightarrow> Inl e
         | Inr s \<Rightarrow> (case final_args rt as of Inl e \<Rightarrow> Inl e | Inr r \<Rightarrow> Inr (JStr s # r)))
      else (case final_args rt as of Inl e \<Rightarrow> Inl e | Inr r \<Rightarrow> Inr (a # r)))"

text \<open>The \<open>catch\<close> of lines 51 to 55.\<close>

definition catch_native :: "string \<Rightarrow> string \<Rightarrow> nat \<Rightarrow> jsval \<Rightarrow> page \<Rightarrow> page" where
  "catch_native methodName callbackName p e st =
     delete_global callbackName
       (settle p (Rejected e) (log_console (E_native_exception methodName e) st))"

text \<open>
  \<^verbatim>\<open>apiBridge.request(methodName, ...args)\<close>: the page afterwards and the promise
  returned.
\<close>

definition request :: "runtime \<Rightarrow> nat \<Rightarrow> string \<Rightarrow> jsval list \<Rightarrow> page \<Rightarrow> page \<times> nat" where
  "request rt now methodName args st =
     (case bridge_method st methodName of
        None \<Rightarrow>
          ((log_console (E_bridge_missing methodName) st)
             \<lparr>promises := promises st @ [Rejected (JErr (BridgeMissing methodName))]\<rparr>,
           length (promises st))
      | Some f \<Rightarrow>
          (let p = length (promises st);
               callbackName = callback_name methodName now;
               st1 = st\<lparr>promises := promises st @ [Pending],
                        globals := (globals st)(callbackName \<mapsto>
                          \<lparr>cb_promise = p, cb_method = methodName, cb_name = callbackName\<rparr>),
                        history := history st @ [Registered callbackName p]\<rparr>
           in (case final_args rt args of
                 Inl e \<Rightarrow> (catch_native methodName callbackName p e st1, p)
               | Inr finalArgs \<Rightarrow>
                   (let eff = f (finalArgs @ [JStr callbackName]);
                        st2 = st1\<lparr>history := history st1 @
                                [NativeCall methodName (finalArgs @ [JStr callbackName])]\<rparr>;
                        st3 = (case calls_back eff of
                                 None \<Rightarrow> st2
                               | Some (r, e) \<Rightarrow> invoke_global rt callbackName r e st2)
                    in (case outcome eff of
                          Returns \<Rightarrow> (st3, p)
                        | Throws ex \<Rightarrow> (catch_native methodName callbackName p ex st3, p))))))"

text \<open>
  What happens to a page: the code calls \<open>request\<close>, or the native side answers by
  calling a global by name.
\<close>

datatype page_event =
    Request nat string "jsval list"
  | Deliver string jsval jsval

fun step :: "runtime \<Rightarrow> page_event \<Rightarrow> page \<Rightarrow> page" where
  "step rt (Request now methodName args) st = fst (request rt now methodName args st)"
| "step rt (Deliver name result error) st = invoke_global rt name result error st"

fun run :: "runtime \<Rightarrow> page_event list \<Rightarrow> page \<Rightarrow> page" where
  "run rt [] st = st"
| "run rt (ev # evs) st = run rt evs (step rt ev st)"

definition fresh_page :: "(string \<Rightarrow> member) option \<Rightarrow> page" where
  "fresh_page b = \<lparr>android = b, globals = Map.empty, promises = [], console = [], history = []\<rparr>"

fun is_removal :: "nat \<Rightarrow> history_event \<Rightarrow> bool" where
  "is_removal p (Removed k q) = (p = q)"
| "is_removal p ev = False"

fun is_registration :: "nat \<Rightarrow> history_event \<Rightarrow> bool" where
  "is_registration p (Registered k q) = (p = q)"
| "is_registration p ev = False"

definition removals :: "nat \<Rightarrow> page \<Rightarrow> nat" where
  "removals p st = length (filter (is_removal p) (history st))"

definition registered :: "nat \<Rightarrow> page \<Rightarrow> bool" where
  "registered p st = list_ex (is_registration p) (history st)"

definition settled :: "nat \<Rightarrow> page \<Rightarrow> bool" where
  "settled p st = (p < length (promises st) \<and> promises st ! p \<noteq> Pending)"

text \<open>The names under which a callback of promise \<open>p\<close> is registered.\<close>

definition records_of :: "nat \<Rightarrow> page \<Rightarrow> string set" where
  "records_of p st = {k. \<exists>cb. globals st k = Some cb \<and> cb_promise cb = p}"

text \<open>The calls of native methods in a history, with the arguments received.\<close>

fun native_calls :: "history_event list \<Rightarrow> (string \<times> jsval list) list" where
  "native_calls [] = []"
| "native_calls (NativeCall m as # evs) = (m, as) # native_calls evs"
| "native_calls (ev # evs) = native_calls evs"

text \<open>
  The bookkeeping of the registry, used to show that it is maintained: a registered
  callback sits under its own name and belongs to a pending promise (\<open>owned\<close>), no
  promise has callbacks under two names (\<open>one_name\<close>), and the removals of a promise's
  callback number one when the call registered one and has settled, none otherwise
  (\<open>counted\<close>).
\<close>

definition owned :: "page \<Rightarrow> bool" where
  "owned st \<longleftrightarrow>
     (\<forall>k cb. globals st k = Some cb \<longrightarrow>
        cb_name cb = k \<and> cb_promise cb < length (promises st) \<and>
        promises st ! cb_promise cb = Pending \<and> registered (cb_promise cb) st)"

definition one_name :: "page \<Rightarrow> bool" where
  "one_name st \<longleftrightarrow>
     (\<forall>k k' cb cb'. globals st k = Some cb \<longrightarrow> globals st k' = Some cb' \<longrightarrow>
        cb_promise cb = cb_promise cb' \<longrightarrow> k = k')"

definition counted :: "page \<Rightarrow> bool" where
  "counted st \<longleftrightarrow>
     (\<forall>p. removals p st =
        (if p < length (promises st) \<and> registered p st \<and> promises st ! p \<noteq> Pending
         then 1 else 0)) \<and>
     (\<forall>p. registered p st \<longrightarrow> p < length (promises st))"

definition page_inv :: "page \<Rightarrow> bool" where
  "page_inv st \<longleftrightarrow> owned st \<and> one_name st \<and> counted st"

text \<open>
  The words of the specification for what the native method receives in place of an
  argument, given the JSON encoding of objects: the JSON text of an object, a primitive
  as it is.
\<close>

definition spec_forwarded :: "(jsval \<Rightarrow> string) \<Rightarrow> jsval \<Rightarrow> jsval" where
  "spec_forwarded encode a = (if is_object_arg a then JStr (encode a) else a)"

section \<open>GameAPI: one router over two transports\<close>

record game_api =
  useBridge :: bool
  baseURL :: string
  playerId :: string

definition getPlayerId :: "game_api \<Rightarrow> string" where
  "getPlayerId g = playerId g"

text \<open>
  The options a caller hands to the router: every call of the file passes at most a
  method and a body.
\<close>

record fetch_options =
  fo_method :: "string option"
  fo_body :: "jsval option"

text \<open>The four arguments of \<^verbatim>\<open>GameAPI.request\<close>.\<close>

record api_request =
  bridgeMethod :: string
  bridgeArgs :: "jsval list"
  fetchUrl :: string
  fetchOptions :: fetch_options

definition getPlayerPuzzles :: "game_api \<Rightarrow> api_request" where
  "getPlayerPuzzles g =
     \<lparr>bridgeMethod = ''getPlayerPuzzles'', bridgeArgs = [JStr (playerId g)],
      fetchUrl = ''/puzzle/player/'' @ playerId g,
      fetchOptions = \<lparr>fo_method = None, fo_body = None\<rparr>\<rparr>"

definition submitPuzzleAnswer :: "game_api \<Rightarrow> jsval \<Rightarrow> jsval \<Rightarrow> api_request" where
  "submitPuzzleAnswer g puzzleId answer =
     (let body = JObj [(''playerId'', JStr (playerId g)), (''puzzleId'', puzzleId),
                       (''answer'', answer)]
      in \<lparr>bridgeMethod = ''submitPuzzleAnswer'', bridgeArgs = [body],
          fetchUrl = ''/puzzle/submit'',
          fetchOptions = \<lparr>fo_method = Some ''POST'', fo_body = Some body\<rparr>\<rparr>)"

definition completePuzzle_request :: "runtime \<Rightarrow> game_api \<Rightarrow> jsval \<Rightarrow> api_request" where
  "completePuzzle_request rt g puzzleId =
     (let params = url_search_params rt
                     [(''playerId'', JStr (playerId g)), (''puzzleId'', puzzleId)]
      in \<lparr>bridgeMethod = ''completePuzzle'', bridgeArgs = [JStr (playerId g), puzzleId],
          fetchUrl = ''/game/complete-puzzle?'' @ params,
          fetchOptions = \<lparr>fo_method = Some ''POST'', fo_body = None\<rparr>\<rparr>)"

definition resetProgress :: "game_api \<Rightarrow> api_request" where
  "resetProgress g =
     \<lparr>bridgeMethod = ''resetProgress'', bridgeArgs = [JStr (playerId g)],
      fetchUrl = ''/game/reset/'' @ playerId g,
      fetchOptions = \<lparr>fo_method = Some ''POST'', fo_body = None\<rparr>\<rparr>"

definition unlockAll :: "game_api \<Rightarrow> api_request" where
  "unlockAll g =
     \<lparr>bridgeMethod = ''unlockAll'', bridgeArgs = [JStr (playerId g)],
      fetchUrl = ''/game/unlock-all/'' @ playerId g,
      fetchOptions = \<lparr>fo_method = Some ''POST'', fo_body = None\<rparr>\<rparr>"

definition getGameInfo :: "api_request" where
  "getGameInfo =
     \<lparr>bridgeMethod = ''getGameInfo'', bridgeArgs = [],
      fetchUrl = ''/game/info'',
      fetchOptions = \<lparr>fo_method = None, fo_body = None\<rparr>\<rparr>"

text \<open>
  What \<^verbatim>\<open>fetch\<close> is called with, and what it answers: a network failure or a response
  (with the body text that \<^verbatim>\<open>response.text()\<close> reads, and that \<^verbatim>\<open>response.json()\<close>
  parses). \<^verbatim>\<open>response.ok\<close> is the platform's: a status from 200 to 299.
\<close>

record http_request =
  hr_url :: string
  hr_method :: "string option"
  hr_headers :: "(string \<times> string) list"
  hr_body :: "jsval option"

record response =
  status :: nat
  body_text :: string

datatype fetch_result = NetworkFailure jsval | Responded response

definition response_ok :: "response \<Rightarrow> bool" where
  "response_ok r = (200 \<le> status r \<and> status r \<le> 299)"

text \<open>
  The outcome of an asynchronous call that has settled: the value it resolves with or
  the value it rejects with.
\<close>

datatype reply = Resolves jsval | Rejects jsval

record http_result =
  issued :: "http_request option"
  logged :: "console_entry list"
  settles :: reply

text \<open>Lines 48 to 50: a truthy body is replaced by its JSON text, before the \<open>try\<close>.\<close>

definition prepare_body :: "runtime \<Rightarrow> jsval option \<Rightarrow> jsval + jsval option" where
  "prepare_body rt b =
     (case b of
        None \<Rightarrow> Inr None
      | Some v \<Rightarrow>
          (if truthy v
           then (case json_stringify rt v of Inl e \<Rightarrow> Inl e | Inr s \<Rightarrow> Inr (Some (JStr s)))
           else Inr (Some v)))"

definition http_error :: "response \<Rightarrow> jsval" where
  "http_error r =
     JErr (ErrText (''HTTP error! status: '' @ show_nat (status r) @
                    '', message: '' @ body_text r))"

text \<open>Lines 43 to 47: the URL and the options \<^verbatim>\<open>fetch\<close> is called with.\<close>

definition fetch_request :: "game_api \<Rightarrow> string \<Rightarrow> fetch_options \<Rightarrow> jsval option \<Rightarrow> http_request" where
  "fetch_request g url_path opts body =
     \<lparr>hr_url = baseURL g @ url_path, hr_method = fo_method opts,
      hr_headers = [(''Content-Type'', ''application/json'')], hr_body = body\<rparr>"

text \<open>The \<open>else\<close> branch of \<^verbatim>\<open>GameAPI.request\<close>, lines 43 to 62.\<close>

definition request_http ::
  "runtime \<Rightarrow> game_api \<Rightarrow> string \<Rightarrow> fetch_options \<Rightarrow> (http_request \<Rightarrow> fetch_result) \<Rightarrow> http_result"
where
  "request_http rt g url_path opts fetch =
     (case prepare_body rt (fo_body opts) of
        Inl e \<Rightarrow> \<lparr>issued = None, logged = [], settles = Rejects e\<rparr>
      | Inr body \<Rightarrow>
          (let req = fetch_request g url_path opts body
           in (case fetch req of
                 NetworkFailure e \<Rightarrow>
                   \<lparr>issued = Some req, logged = [E_api_request_failed e], settles = Rejects e\<rparr>
               | Responded r \<Rightarrow>
                   (if \<not> response_ok r
                    then \<lparr>issued = Some req, logged = [E_api_request_failed (http_error r)],
                          settles = Rejects (http_error r)\<rparr>
                    else (case json_parse rt (JStr (body_text r)) of
                            Inl e \<Rightarrow>
                              \<lparr>issued = Some req, logged = [E_api_request_failed e],
                               settles = Rejects e\<rparr>
                          | Inr v \<Rightarrow>
                              \<lparr>issued = Some req, logged = [], settles = Resolves v\<rparr>)))))"

text \<open>\<^verbatim>\<open>GameAPI.request\<close>: by the bridge when it was there at construction, by HTTP otherwise.\<close>

datatype routed = ViaBridge "page \<times> nat" | ViaHttp http_result

definition GameAPI_request ::
  "runtime \<Rightarrow> game_api \<Rightarrow> api_request \<Rightarrow> nat \<Rightarrow> page \<Rightarrow> (http_request \<Rightarrow> fetch_result) \<Rightarrow> routed"
where
  "GameAPI_request rt g r now st fetch =
     (if useBridge g
      then ViaBridge (request rt now (bridgeMethod r) (bridgeArgs r) st)
      else ViaHttp (request_http rt g (fetchUrl r) (fetchOptions r) fetch))"

section \<open>PuzzleManagerAPI: the puzzle store and the modal controller\<close>

text \<open>
  The elements the constructor looks up are taken to be on the page. What the code
  writes to them is kept as data: the fixed texts as constructors (with the line of the
  literal), the handler of the submit button as what it does when run.
\<close>

datatype ui_message =
    M_load_failed    \<comment> \<open>line 68\<close>
  | M_check_failed   \<comment> \<open>line 149\<close>

datatype title = T_initial | T_error \<comment> \<open>line 270\<close>

datatype content =
    C_initial
  | C_message ui_message  \<comment> \<open>line 271: the paragraph of \<open>showError\<close>\<close>
  | C_success jsval       \<comment> \<open>line 132: the green paragraph with \<open>response.message\<close>\<close>

datatype feedback_message =
    F_text jsval      \<comment> \<open>\<open>response.message\<close>, when truthy\<close>
  | F_wrong_answer    \<comment> \<open>line 145, the literal after \<open>||\<close>\<close>

datatype display = D_initial | D_none | D_block

datatype button_text = B_initial | B_next \<comment> \<open>line 134\<close> | B_close \<comment> \<open>line 273\<close>

datatype handler =
    H_initial
  | H_hide            \<comment> \<open>line 274: \<open>() => this.hide()\<close>\<close>
  | H_continue jsval  \<comment> \<open>lines 138 to 143, holding \<open>response.nextScene\<close>\<close>

text \<open>
  The manager with what it reads and writes: the \<open>GameAPI\<close> instance, \<open>localStorage\<close>
  (whose reads and writes are taken to succeed), its two fields, the modal, the requests
  it has issued through \<open>gameAPI\<close> (in order) and the console.
\<close>

record manager =
  gameAPI :: game_api
  localStorage :: "string \<rightharpoonup> string"
  currentPuzzleId :: jsval
  playerPuzzles :: jsval
  modal_shown :: bool
  modalTitle :: title
  puzzleContent :: content
  feedback :: "(feedback_message \<times> bool) option"
  input_display :: display
  input_value :: string
  submit_text :: button_text
  submit_onclick :: handler
  requests :: "api_request list"
  mconsole :: "console_entry list"

definition mlog :: "console_entry \<Rightarrow> manager \<Rightarrow> manager" where
  "mlog e m = m\<lparr>mconsole := mconsole m @ [e]\<rparr>"

definition issue :: "api_request \<Rightarrow> manager \<Rightarrow> manager" where
  "issue r m = m\<lparr>requests := requests m @ [r]\<rparr>"

text \<open>Lines 269 to 276. Assigning \<open>innerHTML\<close> drops a feedback paragraph appended before.\<close>

definition showError :: "ui_message \<Rightarrow> manager \<Rightarrow> manager" where
  "showError msg m =
     m\<lparr>modalTitle := T_error, puzzleContent := C_message msg, feedback := None,
       input_display := D_none, submit_text := B_close, submit_onclick := H_hide,
       modal_shown := True\<rparr>"

text \<open>Lines 221 to 234.\<close>

definition showFeedback :: "feedback_message \<Rightarrow> bool \<Rightarrow> manager \<Rightarrow> manager" where
  "showFeedback msg isSuccess m = m\<lparr>feedback := Some (msg, isSuccess), input_value := []\<rparr>"

text \<open>Lines 238 to 241.\<close>

definition hide :: "manager \<Rightarrow> manager" where
  "hide m = m\<lparr>modal_shown := False, currentPuzzleId := JNull\<rparr>"

text \<open>
  Lines 53 to 70, with the reply of \<open>gameAPI.getPlayerPuzzles()\<close>. An awaited call is
  taken to settle (one that never does leaves the operation at its \<open>await\<close>), and
  nothing else touches the manager between an \<open>await\<close> and the code after it.
\<close>

definition loadPlayerPuzzles :: "runtime \<Rightarrow> reply \<Rightarrow> manager \<Rightarrow> manager" where
  "loadPlayerPuzzles rt fetched m =
     (let m1 = issue (getPlayerPuzzles (gameAPI m)) m
      in (case fetched of
            Rejects error \<Rightarrow> showError M_load_failed (mlog (E_load_failed error) m1)
          | Resolves puzzles \<Rightarrow>
              (let m2 = mlog (L_loaded puzzles) (m1\<lparr>playerPuzzles := puzzles\<rparr>);
                   dataToSave = JObj [(''playerId'', JStr (getPlayerId (gameAPI m2))),
                                      (''puzzles'', playerPuzzles m2)]
               in (case json_stringify rt dataToSave of
                     Inl error \<Rightarrow> showError M_load_failed (mlog (E_load_failed error) m2)
                   | Inr text \<Rightarrow>
                       mlog L_saved
                         (m2\<lparr>localStorage := (localStorage m2)(''playerPuzzles'' \<mapsto> text)\<rparr>)))))"

text \<open>
  Lines 32 to 37 inside the \<open>try\<close>: \<open>Inl\<close> is the value thrown, \<open>Inr\<close> the puzzle list to
  restore, if the snapshot is this player's and its list is an array.
\<close>

definition read_snapshot :: "runtime \<Rightarrow> game_api \<Rightarrow> string \<Rightarrow> jsval + jsval option" where
  "read_snapshot rt g savedDataJSON =
     (case json_parse rt (JStr savedDataJSON) of
        Inl e \<Rightarrow> Inl e
      | Inr savedData \<Rightarrow>
          (case get_prop savedData ''playerId'' of
             Inl e \<Rightarrow> Inl e
           | Inr owner \<Rightarrow>
               (if owner = JStr (getPlayerId g)
                then (case get_prop savedData ''puzzles'' of
                        Inl e \<Rightarrow> Inl e
                      | Inr puzzles \<Rightarrow> Inr (if isArray puzzles then Some puzzles else None))
                else Inr None)))"

text \<open>
  Lines 26 to 48, followed to the end of the load it may start (\<open>fetched\<close> is the reply
  that load gets).
\<close>

definition initializePuzzles :: "runtime \<Rightarrow> reply \<Rightarrow> manager \<Rightarrow> manager" where
  "initializePuzzles rt fetched m =
     (let fetch_from_server = (\<lambda>m'. loadPlayerPuzzles rt fetched (mlog L_fetching m'))
      in (case localStorage m ''playerPuzzles'' of
            None \<Rightarrow> fetch_from_server m
          | Some savedDataJSON \<Rightarrow>
              (if savedDataJSON = [] then fetch_from_server m
               else (case read_snapshot rt (gameAPI m) savedDataJSON of
                       Inl e \<Rightarrow>
                         fetch_from_server
                           ((mlog (E_parse_failed e) m)
                              \<lparr>localStorage := (localStorage m)(''playerPuzzles'' := None)\<rparr>)
                     | Inr None \<Rightarrow> fetch_from_server m
                     | Inr (Some puzzles) \<Rightarrow> mlog L_restored (m\<lparr>playerPuzzles := puzzles\<rparr>)))))"

text \<open>
  Lines 156 to 164, with the replies of \<open>gameAPI.completePuzzle\<close> and of the load that
  follows it.
\<close>

definition completePuzzle :: "runtime \<Rightarrow> jsval \<Rightarrow> reply \<Rightarrow> reply \<Rightarrow> manager \<Rightarrow> manager" where
  "completePuzzle rt puzzleId completed fetched m =
     (let m1 = issue (completePuzzle_request rt (gameAPI m) puzzleId) m
      in (case completed of
            Rejects error \<Rightarrow> mlog (E_complete_failed error) m1
          | Resolves v \<Rightarrow> mlog (L_completed puzzleId) (loadPlayerPuzzles rt fetched m1)))"

text \<open>
  While a call is awaited the modal stays open and its other handlers can run (the close
  button and the backdrop run \<open>hide\<close>, lines 244 and 245). The two operations above
  again, with what the other handlers did to the manager during each \<open>await\<close> as a
  parameter: \<open>during_load\<close> between line 55's request and its reply,
  \<open>during_completion\<close> between line 158's request and its reply. With \<open>undisturbed\<close>
  for both they are \<open>loadPlayerPuzzles\<close> and \<open>completePuzzle\<close>.
\<close>

definition undisturbed :: "manager \<Rightarrow> manager" where
  "undisturbed m = m"

definition loadPlayerPuzzles_among ::
  "runtime \<Rightarrow> (manager \<Rightarrow> manager) \<Rightarrow> reply \<Rightarrow> manager \<Rightarrow> manager"
where
  "loadPlayerPuzzles_among rt during_load fetched m =
     (let m1 = during_load (issue (getPlayerPuzzles (gameAPI m)) m)
      in (case fetched of
            Rejects error \<Rightarrow> showError M_load_failed (mlog (E_load_failed error) m1)
          | Resolves puzzles \<Rightarrow>
              (let m2 = mlog (L_loaded puzzles) (m1\<lparr>playerPuzzles := puzzles\<rparr>);
                   dataToSave = JObj [(''playerId'', JStr (getPlayerId (gameAPI m2))),
                                      (''puzzles'', playerPuzzles m2)]
               in (case json_stringify rt dataToSave of
                     Inl error \<Rightarrow> showError M_load_failed (mlog (E_load_failed error) m2)
                   | Inr text \<Rightarrow>
                       mlog L_saved
                         (m2\<lparr>localStorage := (localStorage m2)(''playerPuzzles'' \<mapsto> text)\<rparr>)))))"

definition completePuzzle_among ::
  "runtime \<Rightarrow> (manager \<Rightarrow> manager) \<Rightarrow> (manager \<Rightarrow> manager) \<Rightarrow> jsval \<Rightarrow> reply \<Rightarrow> reply \<Rightarrow>
   manager \<Rightarrow> manager"
where
  "completePuzzle_among rt during_completion during_load puzzleId completed fetched m =
     (let m1 = during_completion (issue (completePuzzle_request rt (gameAPI m) puzzleId) m)
      in (case completed of
            Rejects error \<Rightarrow> mlog (E_complete_failed error) m1
          | Resolves v \<Rightarrow>
              mlog (L_completed puzzleId) (loadPlayerPuzzles_among rt during_load fetched m1)))"

text \<open>
  \<open>checkAnswer\<close>, lines 124 to 151, in the stretches its \<open>await\<close>s cut it into.
  Lines 125 to 129, up to the first \<open>await\<close>: \<open>None\<close> when line 125 returns, otherwise the
  manager with the submission issued, for the puzzle that is current now and the typed
  answer lowercased and then trimmed.
\<close>

definition checkAnswer_begin :: "runtime \<Rightarrow> manager \<Rightarrow> manager option" where
  "checkAnswer_begin rt m =
     (if \<not> truthy (currentPuzzleId m) then None
      else
        (let userAnswer = str_trim rt (str_toLowerCase rt (input_value m))
         in Some (issue (submitPuzzleAnswer (gameAPI m) (currentPuzzleId m) (JStr userAnswer)) m)))"

text \<open>
  Lines 129 to 150, from the reply of the submission on, run on the manager \<open>m1\<close> as it
  is when the reply arrives: line 136 reads \<open>this.currentPuzzleId\<close> then, not at the
  submission. \<open>completed\<close> and \<open>fetched\<close> are the replies of the completion and of its
  load. When \<open>completePuzzle\<close> has finished, line 138 follows at once and reads nothing
  of the manager.
\<close>

definition checkAnswer_replied ::
  "runtime \<Rightarrow> (manager \<Rightarrow> manager) \<Rightarrow> (manager \<Rightarrow> manager) \<Rightarrow> reply \<Rightarrow> reply \<Rightarrow> reply \<Rightarrow>
   manager \<Rightarrow> manager"
where
  "checkAnswer_replied rt during_completion during_load submitted completed fetched m1 =
     (let failed = (\<lambda>error. showError M_check_failed (mlog (E_check_failed error) m1))
      in (case submitted of
            Rejects error \<Rightarrow> failed error
          | Resolves response \<Rightarrow>
              (case get_prop response ''success'' of
                 Inl error \<Rightarrow> failed error
               | Inr success \<Rightarrow>
                   (if truthy success then
                      (let m2 = m1\<lparr>puzzleContent := C_success (read_prop response ''message''),
                                   feedback := None, input_display := D_none,
                                   submit_text := B_next\<rparr>;
                           m3 = completePuzzle_among rt during_completion during_load
                                  (currentPuzzleId m2) completed fetched m2
                       in m3\<lparr>submit_onclick := H_continue (read_prop response ''nextScene'')\<rparr>)
                    else
                      showFeedback
                        (if truthy (read_prop response ''message'')
                         then F_text (read_prop response ''message'') else F_wrong_answer)
                        False m1))))"

text \<open>
  The whole call, with what the other handlers did during each of the three \<open>await\<close>s
  it goes through: of the submission (line 129), of the completion (line 158) and of
  the load (line 55). \<open>quiet\<close> is the run in which none ran.
\<close>

record others =
  while_submitting :: "manager \<Rightarrow> manager"
  while_completing :: "manager \<Rightarrow> manager"
  while_loading :: "manager \<Rightarrow> manager"

definition quiet :: others where
  "quiet = \<lparr>while_submitting = undisturbed, while_completing = undisturbed,
            while_loading = undisturbed\<rparr>"

definition checkAnswer ::
  "runtime \<Rightarrow> others \<Rightarrow> reply \<Rightarrow> reply \<Rightarrow> reply \<Rightarrow> manager \<Rightarrow> manager"
where
  "checkAnswer rt w submitted completed fetched m =
     (case checkAnswer_begin rt m of
        None \<Rightarrow> m
      | Some m1 \<Rightarrow>
          checkAnswer_replied rt (while_completing w) (while_loading w) submitted completed fetched
            (while_submitting w m1))"


text \<open>
  What the handler installed on the submit button does when run; \<open>handleNextScene\<close>
  (lines 213 to 216) only writes to the console.
\<close>

fun run_handler :: "handler \<Rightarrow> manager \<Rightarrow> manager" where
  "run_handler H_initial m = m"
| "run_handler H_hide m = hide m"
| "run_handler (H_continue nextScene) m =
     (if truthy nextScene then mlog (L_next_scene nextScene) (hide m) else hide m)"

text \<open>Lines 10 to 17: the manager as the constructor leaves it before line 20.\<close>

definition new_manager :: "game_api \<Rightarrow> (string \<rightharpoonup> string) \<Rightarrow> manager" where
  "new_manager g store =
     \<lparr>gameAPI = g, localStorage = store, currentPuzzleId = JNull, playerPuzzles = JArr [],
      modal_shown = False, modalTitle = T_initial, puzzleContent = C_initial, feedback = None,
      input_display = D_initial, input_value = [], submit_text = B_initial,
      submit_onclick = H_initial, requests = [], mconsole = []\<rparr>"

text \<open>
  The words of the specification for the controller's state Resolved: a puzzle is
  current and the submit button carries the continuation.
\<close>

fun is_continue :: "handler \<Rightarrow> bool" where
  "is_continue (H_continue nextScene) = True"
| "is_continue h = False"

definition spec_resolved :: "manager \<Rightarrow> bool" where
  "spec_resolved m = (truthy (currentPuzzleId m) \<and> is_continue (submit_onclick m))"

section \<open>A sample runtime, bridge and player\<close>

text \<open>
  Concrete collaborators for the examples that follow the theorems: the JSON text of a
  value (strings without control characters), a parser that knows the texts of the
  listed sample values only, query strings of plain names and values, the string
  methods on ASCII text, and a bridge with methods that answer later, answer at once, or
  throw.
\<close>

text \<open>Lowercasing and trimming as the engine does them on ASCII text.\<close>

definition ascii_lower_char :: "char \<Rightarrow> char" where
  "ascii_lower_char c =
     (case map_of (zip ''ABCDEFGHIJKLMNOPQRSTUVWXYZ'' ''abcdefghijklmnopqrstuvwxyz'') c of
        None \<Rightarrow> c
      | Some d \<Rightarrow> d)"

definition ascii_toLowerCase :: "string \<Rightarrow> string" where
  "ascii_toLowerCase s = map ascii_lower_char s"

definition ascii_space :: "char \<Rightarrow> bool" where
  "ascii_space c = (c \<in> set [CHR '' '', CHR 0x09, CHR 0x0A, CHR 0x0B, CHR 0x0C, CHR 0x0D])"

definition ascii_trim :: "string \<Rightarrow> string" where
  "ascii_trim s = rev (dropWhile ascii_space (rev (dropWhile ascii_space s)))"

definition json_escape :: "char \<Rightarrow> string" where
  "json_escape c =
     (if c = CHR 0x22 then [CHR 0x5C, CHR 0x22]
      else if c = CHR 0x5C then [CHR 0x5C, CHR 0x5C]
      else [c])"

definition json_quote :: "string \<Rightarrow> string" where
  "json_quote s = CHR 0x22 # concat (map json_escape s) @ [CHR 0x22]"

fun join_with :: "string \<Rightarrow> string list \<Rightarrow> string" where
  "join_with sep [] = []"
| "join_with sep [x] = x"
| "join_with sep (x # y # ys) = x @ sep @ join_with sep (y # ys)"

definition show_int :: "int \<Rightarrow> string" where
  "show_int i = (if i < 0 then ''-'' @ show_nat (nat (- i)) else show_nat (nat i))"

fun json_text :: "jsval \<Rightarrow> string" where
  "json_text JUndefined = ''null''"
| "json_text JNull = ''null''"
| "json_text (JBool b) = (if b then ''true'' else ''false'')"
| "json_text (JNum i) = show_int i"
| "json_text JNaN = ''null''"
| "json_text (JStr s) = json_quote s"
| "json_text (JArr xs) = ''['' @ join_with '','' (map json_text xs) @ '']''"
| "json_text (JObj kvs) =
     ''{'' @ join_with '',''
              (concat (map (\<lambda>(k, v). if v = JUndefined then []
                                      else [json_quote k @ '':'' @ json_text v]) kvs)) @ ''}''"
| "json_text (JErr m) = ''{}''"

definition sample_values :: "jsval list" where
  "sample_values =
     [JObj [(''playerId'', JStr ''p1''),
            (''puzzles'', JArr [JObj [(''id'', JStr ''door''), (''isCompleted'', JBool False)]])],
      JObj [(''code'', JNum 7)],
      JObj [(''name'', JStr ''room'')]]"

definition sample_parse :: "jsval \<Rightarrow> jsval + jsval" where
  "sample_parse v =
     (case v of
        JStr s \<Rightarrow>
          (case find (\<lambda>x. json_text x = s) sample_values of
             Some x \<Rightarrow> Inr x
           | None \<Rightarrow> Inl (JErr (ErrText ''SyntaxError'')))
      | _ \<Rightarrow> Inl (JErr (ErrText ''SyntaxError'')))"

definition sample_runtime :: runtime where
  "sample_runtime =
     \<lparr>json_stringify = (\<lambda>v. Inr (json_text v)), json_parse = sample_parse,
      url_search_params =
        (\<lambda>kvs. join_with ''&''
                 (map (\<lambda>(k, v). k @ ''='' @ (case v of JStr s \<Rightarrow> s | _ \<Rightarrow> json_text v)) kvs)),
      str_toLowerCase = ascii_toLowerCase, str_trim = ascii_trim\<rparr>"

definition sample_bridge :: "string \<Rightarrow> member" where
  "sample_bridge name =
     (if name \<in> set [''getGameInfo'', ''getPlayerPuzzles'', ''submitPuzzleAnswer'']
      then Function (\<lambda>args. \<lparr>calls_back = None, outcome = Returns\<rparr>)
      else if name = ''unlockAll''
      then Function (\<lambda>args. \<lparr>calls_back = Some (JBool True, JUndefined),
                             outcome = Throws (JErr (ErrText ''late''))\<rparr>)
      else if name = ''resetProgress''
      then Function (\<lambda>args. \<lparr>calls_back = None, outcome = Throws (JErr (ErrText ''dead''))\<rparr>)
      else if name = ''version'' then NotFunction
      else Missing)"

definition sample_api :: game_api where
  "sample_api = \<lparr>useBridge = False, baseURL = ''http://localhost:8080/api'', playerId = ''p1''\<rparr>"

text \<open>
  A manager with the puzzle \<open>door\<close> open and an answer typed, a reply to a correct
  answer, and the persisted snapshot of player \<open>p1\<close>.
\<close>

definition sample_manager :: manager where
  "sample_manager =
     (new_manager sample_api Map.empty)
       \<lparr>currentPuzzleId := JStr ''door'', input_value := ''  CAT '', modal_shown := True,
        playerPuzzles := JArr [JObj [(''id'', JStr ''door''), (''isCompleted'', JBool False)]]\<rparr>"

definition sample_correct :: jsval where
  "sample_correct = JObj [(''success'', JBool True), (''message'', JStr ''Correct!'')]"

definition sample_snapshot :: string where
  "sample_snapshot = json_text (sample_values ! 0)"

text \<open>
  A session on the sample bridge: a call answered with a result, a call whose native
  method throws, one that answers at once and then throws, one to a method that is not
  there, one answered with an error, and one still waiting.
\<close>

definition sample_events :: "page_event list" where
  "sample_events =
     [Request 1000 ''getGameInfo'' [],
      Deliver ''__native_callback_getGameInfo_1000'' (JStr ''ok'') JUndefined,
      Request 1001 ''resetProgress'' [JStr ''p1''],
      Request 1002 ''unlockAll'' [JStr ''p1''],
      Request 1003 ''nothing'' [],
      Request 1004 ''submitPuzzleAnswer'' [JObj [(''answer'', JStr ''cat'')]],
      Deliver ''__native_callback_submitPuzzleAnswer_1004'' JUndefined (JStr ''boom''),
      Request 1005 ''getPlayerPuzzles'' [JStr ''p1'']]"

section \<open>The callback registry of the bridge\<close>

lemma removals_simps [simp]:
  "removals p (st\<lparr>history := h\<rparr>) = length (filter (is_removal p) h)"
  "removals p (st\<lparr>promises := ps\<rparr>) = removals p st"
  "removals p (st\<lparr>globals := g\<rparr>) = removals p st"
  "removals p (st\<lparr>console := c\<rparr>) = removals p st"
  by (simp_all add: removals_def)

lemma registered_simps [simp]:
  "registered p (st\<lparr>history := h\<rparr>) = list_ex (is_registration p) h"
  "registered p (st\<lparr>promises := ps\<rparr>) = registered p st"
  "registered p (st\<lparr>globals := g\<rparr>) = registered p st"
  "registered p (st\<lparr>console := c\<rparr>) = registered p st"
  by (simp_all add: registered_def)

lemma ownedD:
  "owned st \<Longrightarrow> globals st k = Some cb \<Longrightarrow>
     cb_name cb = k \<and> cb_promise cb < length (promises st) \<and>
     promises st ! cb_promise cb = Pending \<and> registered (cb_promise cb) st"
  unfolding owned_def by blast

lemma ownedI:
  "(\<And>k cb. globals st k = Some cb \<Longrightarrow>
     cb_name cb = k \<and> cb_promise cb < length (promises st) \<and>
     promises st ! cb_promise cb = Pending \<and> registered (cb_promise cb) st) \<Longrightarrow> owned st"
  unfolding owned_def by blast

lemma inv_fresh: "page_inv (fresh_page b)"
  by (simp add: page_inv_def owned_def one_name_def counted_def fresh_page_def removals_def registered_def)

lemma inv_log_console: "page_inv st \<Longrightarrow> page_inv (log_console e st)"
  by (simp add: page_inv_def owned_def one_name_def counted_def log_console_def)

lemma inv_native_call:
  "page_inv st \<Longrightarrow> page_inv (st\<lparr>history := history st @ [NativeCall m as]\<rparr>)"
  by (simp add: page_inv_def owned_def one_name_def counted_def removals_def registered_def)

lemma inv_reject_new:
  assumes "page_inv st" "v \<noteq> Pending"
  shows "page_inv (st\<lparr>promises := promises st @ [v]\<rparr>)"
proof -
  from assms have o: "owned st" and n: "one_name st" and c: "counted st"
    by (simp_all add: page_inv_def)
  have "owned (st\<lparr>promises := promises st @ [v]\<rparr>)"
  proof (rule ownedI)
    fix k cb assume "globals (st\<lparr>promises := promises st @ [v]\<rparr>) k = Some cb"
    then have "globals st k = Some cb" by simp
    from ownedD [OF o this]
    show "cb_name cb = k \<and> cb_promise cb < length (promises (st\<lparr>promises := promises st @ [v]\<rparr>)) \<and>
       promises (st\<lparr>promises := promises st @ [v]\<rparr>) ! cb_promise cb = Pending \<and>
       registered (cb_promise cb) (st\<lparr>promises := promises st @ [v]\<rparr>)"
      by (simp add: nth_append)
  qed
  moreover have "one_name (st\<lparr>promises := promises st @ [v]\<rparr>)"
    using n by (simp add: one_name_def)
  moreover have "counted (st\<lparr>promises := promises st @ [v]\<rparr>)"
    using c assms(2) unfolding counted_def by (auto simp: nth_append less_Suc_eq)
  ultimately show ?thesis by (simp add: page_inv_def)
qed

lemma inv_register:
  assumes "page_inv st"
  shows "page_inv (st\<lparr>promises := promises st @ [Pending],
            globals := (globals st)(tok \<mapsto>
              \<lparr>cb_promise = length (promises st), cb_method = m, cb_name = tok\<rparr>),
            history := history st @ [Registered tok (length (promises st))]\<rparr>)"
    (is "page_inv ?st'")
proof -
  from assms have o: "owned st" and n: "one_name st" and c: "counted st"
    by (simp_all add: page_inv_def)
  have lt: "\<And>k cb. globals st k = Some cb \<Longrightarrow> cb_promise cb < length (promises st)"
    using ownedD [OF o] by blast
  have "owned ?st'"
  proof (rule ownedI)
    fix k cb assume g: "globals ?st' k = Some cb"
    show "cb_name cb = k \<and> cb_promise cb < length (promises ?st') \<and>
       promises ?st' ! cb_promise cb = Pending \<and> registered (cb_promise cb) ?st'"
    proof (cases "k = tok")
      case True
      with g show ?thesis by (auto simp: registered_def)
    next
      case False
      with g have "globals st k = Some cb" by simp
      from ownedD [OF o this] show ?thesis by (simp add: nth_append registered_def)
    qed
  qed
  moreover have "one_name ?st'"
    unfolding one_name_def
  proof (intro allI impI)
    fix k k' cb cb'
    assume a: "globals ?st' k = Some cb" "globals ?st' k' = Some cb'" "cb_promise cb = cb_promise cb'"
    show "k = k'"
    proof (cases "k = tok")
      case True
      show ?thesis
      proof (cases "k' = tok")
        case True with \<open>k = tok\<close> show ?thesis by simp
      next
        case False
        with a(2) have "globals st k' = Some cb'" by simp
        from lt [OF this] a True show ?thesis by auto
      qed
    next
      case False
      with a(1) have g1: "globals st k = Some cb" by simp
      show ?thesis
      proof (cases "k' = tok")
        case True
        with a lt [OF g1] show ?thesis by auto
      next
        case False
        with a(2) have "globals st k' = Some cb'" by simp
        with n g1 a(3) show ?thesis unfolding one_name_def by blast
      qed
    qed
  qed
  moreover have "counted ?st'"
    using c unfolding counted_def by (auto simp: nth_append less_Suc_eq removals_def registered_def)
  ultimately show ?thesis by (simp add: page_inv_def)
qed

lemma inv_settle_delete:
  assumes "page_inv st" "globals st k = Some cb" "v \<noteq> Pending"
  shows "page_inv (delete_global k (settle (cb_promise cb) v st))" (is "page_inv ?st'")
proof -
  from assms have o: "owned st" and n: "one_name st" and c: "counted st"
    by (simp_all add: page_inv_def)
  from ownedD [OF o assms(2)] have cb: "cb_name cb = k" "cb_promise cb < length (promises st)"
    "promises st ! cb_promise cb = Pending" "registered (cb_promise cb) st"
    by simp_all
  have eq: "?st' = st\<lparr>promises := (promises st)[cb_promise cb := v],
              globals := (globals st)(k := None),
              history := history st @ [Removed k (cb_promise cb)]\<rparr>"
    using cb assms(2) by (simp add: settle_def delete_global_def)
  have other: "\<And>k' cb'. k' \<noteq> k \<Longrightarrow> globals st k' = Some cb' \<Longrightarrow> cb_promise cb' \<noteq> cb_promise cb"
    using n assms(2) unfolding one_name_def by blast
  have "owned ?st'"
    unfolding eq
  proof (rule ownedI)
    fix k' cb'
    assume "globals (st\<lparr>promises := (promises st)[cb_promise cb := v],
              globals := (globals st)(k := None),
              history := history st @ [Removed k (cb_promise cb)]\<rparr>) k' = Some cb'"
    then have k': "k' \<noteq> k" and g: "globals st k' = Some cb'" by (auto split: if_splits)
    from ownedD [OF o g] other [OF k' g]
    show "cb_name cb' = k' \<and>
       cb_promise cb' < length (promises (st\<lparr>promises := (promises st)[cb_promise cb := v],
              globals := (globals st)(k := None),
              history := history st @ [Removed k (cb_promise cb)]\<rparr>)) \<and>
       promises (st\<lparr>promises := (promises st)[cb_promise cb := v],
              globals := (globals st)(k := None),
              history := history st @ [Removed k (cb_promise cb)]\<rparr>) ! cb_promise cb' = Pending \<and>
       registered (cb_promise cb') (st\<lparr>promises := (promises st)[cb_promise cb := v],
              globals := (globals st)(k := None),
              history := history st @ [Removed k (cb_promise cb)]\<rparr>)"
      by (simp add: registered_def)
  qed
  moreover have "one_name ?st'"
    unfolding eq using n unfolding one_name_def by (auto split: if_splits)
  moreover have "counted ?st'"
    unfolding eq using c cb assms(3) unfolding counted_def
    by (auto simp: nth_list_update removals_def registered_def)
  ultimately show ?thesis by (simp add: page_inv_def)
qed


lemma run_callback_eq:
  "run_callback rt cb result error st =
     delete_global (cb_name cb)
       (settle (cb_promise cb)
          (if truthy error
           then Rejected (case json_parse rt error of Inr parsed \<Rightarrow> parsed | Inl e \<Rightarrow> error)
           else Resolved result)
          (if truthy error then log_console (E_native_api (cb_method cb) error) st else st))"
  by (simp add: run_callback_def split: sum.splits)

lemma inv_run_callback:
  assumes "page_inv st" "globals st k = Some cb"
  shows "page_inv (run_callback rt cb result error st)"
proof -
  from assms have k: "cb_name cb = k"
    using ownedD [of st k cb] by (simp add: page_inv_def)
  let ?st = "if truthy error then log_console (E_native_api (cb_method cb) error) st else st"
  have "page_inv ?st" using assms(1) by (simp add: inv_log_console)
  moreover have "globals ?st k = Some cb" using assms(2) by (simp add: log_console_def)
  ultimately show ?thesis
    unfolding run_callback_eq k by (rule inv_settle_delete) simp
qed

lemma run_callback_done:
  assumes "page_inv st" "globals st k = Some cb"
  shows "globals (run_callback rt cb result error st) k = None \<and>
         promises (run_callback rt cb result error st) ! cb_promise cb \<noteq> Pending \<and>
         length (promises (run_callback rt cb result error st)) = length (promises st)"
proof -
  from assms have cb: "cb_name cb = k" "cb_promise cb < length (promises st)"
    "promises st ! cb_promise cb = Pending"
    using ownedD [of st k cb] by (simp_all add: page_inv_def)
  show ?thesis
    unfolding run_callback_eq using cb assms(2)
    by (simp add: settle_def delete_global_def log_console_def)
qed

lemma inv_invoke_global: "page_inv st \<Longrightarrow> page_inv (invoke_global rt name result error st)"
  by (simp add: invoke_global_def inv_run_callback split: option.splits)

lemma inv_catch_native:
  assumes "page_inv st" "globals st k = Some cb" "cb_promise cb = p"
  shows "page_inv (catch_native m k p e st)"
proof -
  have "page_inv (log_console (E_native_exception m e) st)"
    using assms(1) by (rule inv_log_console)
  moreover have "globals (log_console (E_native_exception m e) st) k = Some cb"
    using assms(2) by (simp add: log_console_def)
  ultimately have "page_inv (delete_global k (settle (cb_promise cb) (Rejected e)
      (log_console (E_native_exception m e) st)))"
    by (rule inv_settle_delete) simp
  then show ?thesis by (simp add: catch_native_def assms(3))
qed

lemma catch_native_noop:
  assumes "globals st k = None" "p < length (promises st)" "promises st ! p \<noteq> Pending"
  shows "catch_native m k p e st = log_console (E_native_exception m e) st"
  using assms by (simp add: catch_native_def settle_def delete_global_def log_console_def)

lemma inv_request: 
  assumes "page_inv st"
  shows "page_inv (fst (request rt now m args st))"
proof (cases "bridge_method st m")
  case None
  have "page_inv ((log_console (E_bridge_missing m) st)
           \<lparr>promises := promises (log_console (E_bridge_missing m) st) @ [Rejected (JErr (BridgeMissing m))]\<rparr>)"
    by (rule inv_reject_new) (simp_all add: inv_log_console assms)
  with None show ?thesis by (simp add: request_def log_console_def)
next
  case (Some f)
  define p where "p = length (promises st)"
  define tok where "tok = callback_name m now"
  define own where "own = \<lparr>cb_promise = p, cb_method = m, cb_name = tok\<rparr>"
  define st1 where "st1 = st\<lparr>promises := promises st @ [Pending],
      globals := (globals st)(tok \<mapsto> own), history := history st @ [Registered tok p]\<rparr>"
  have i1: "page_inv st1"
    unfolding st1_def own_def p_def by (rule inv_register [OF assms])
  have g1: "globals st1 tok = Some own" by (simp add: st1_def)
  have pown: "cb_promise own = p" by (simp add: own_def)
  show ?thesis
  proof (cases "final_args rt args")
    case (Inl e)
    have "page_inv (catch_native m tok p e st1)"
      by (rule inv_catch_native [OF i1 g1 pown])
    then show ?thesis
      unfolding request_def st1_def own_def tok_def p_def Let_def
      using Some Inl by simp
  next
    case (Inr fa)
    define eff where "eff = f (fa @ [JStr tok])"
    define st2 where "st2 = st1\<lparr>history := history st1 @ [NativeCall m (fa @ [JStr tok])]\<rparr>"
    define st3 where "st3 = (case calls_back eff of None \<Rightarrow> st2
                               | Some (r, e) \<Rightarrow> invoke_global rt tok r e st2)"
    have i2: "page_inv st2" unfolding st2_def by (rule inv_native_call [OF i1])
    have g2: "globals st2 tok = Some own" by (simp add: st2_def g1)
    have i3: "page_inv st3"
      unfolding st3_def using i2 by (auto simp: inv_invoke_global split: option.splits)
    have req: "fst (request rt now m args st) =
        (case outcome eff of Returns \<Rightarrow> st3 | Throws ex \<Rightarrow> catch_native m tok p ex st3)"
      unfolding request_def st3_def st2_def st1_def eff_def own_def tok_def p_def Let_def
      using Some Inr by (simp split: native_outcome.splits)
    show ?thesis
    proof (cases "outcome eff")
      case Returns
      with req i3 show ?thesis by simp
    next
      case (Throws ex)
      have "page_inv (catch_native m tok p ex st3)"
      proof (cases "calls_back eff")
        case None
        then have "st3 = st2" by (simp add: st3_def)
        then show ?thesis using inv_catch_native [OF i2 g2 pown] by simp
      next
        case (Some re)
        obtain r e where re: "re = (r, e)" by (cases re)
        have s3: "st3 = run_callback rt own r e st2"
          using Some re g2 by (simp add: st3_def invoke_global_def)
        from run_callback_done [OF i2 g2, of rt r e] ownedD [of st2 tok own] i2 g2
        have "globals st3 tok = None" "p < length (promises st3)" "promises st3 ! p \<noteq> Pending"
          by (simp_all add: s3 pown page_inv_def)
        then have "catch_native m tok p ex st3 = log_console (E_native_exception m ex) st3"
          by (rule catch_native_noop)
        then show ?thesis using i3 by (simp add: inv_log_console)
      qed
      with req Throws show ?thesis by simp
    qed
  qed
qed

lemma inv_step: "page_inv st \<Longrightarrow> page_inv (step rt ev st)"
  by (cases ev) (simp_all add: inv_request inv_invoke_global)

lemma inv_run: "page_inv st \<Longrightarrow> page_inv (run rt evs st)"
  by (induction evs arbitrary: st) (simp_all add: inv_step)


lemma records_of_settled:
  assumes "owned st" "settled p st"
  shows "records_of p st = {}"
proof -
  have "\<And>k cb. globals st k = Some cb \<Longrightarrow> cb_promise cb \<noteq> p"
    using ownedD [OF assms(1)] assms(2) unfolding settled_def by auto
  then show ?thesis unfolding records_of_def by auto
qed

text \<open>
  Claim C1. Take any sequence of bridge requests and native answers on a page that
  starts with no callbacks. In the page it leads to, a call that registered a callback
  and has settled (the native side answered with a result, or with an error, or the
  native method threw, or the arguments could not be encoded) has had its callback
  removed exactly once, and no callback of that call is registered under any name.
  Every other promise (still pending, or rejected by the precondition check) has had
  no removal.
\<close>

theorem bridge_record_removed_once:
  "removals p (run rt evs (fresh_page b)) =
     (if registered p (run rt evs (fresh_page b)) \<and> settled p (run rt evs (fresh_page b))
      then 1 else 0) \<and>
   (settled p (run rt evs (fresh_page b)) \<longrightarrow> records_of p (run rt evs (fresh_page b)) = {})"
proof -
  let ?st = "run rt evs (fresh_page b)"
  have i: "page_inv ?st" by (rule inv_run [OF inv_fresh])
  then have c: "counted ?st" and o: "owned ?st" by (simp_all add: page_inv_def)
  have "removals p ?st = (if registered p ?st \<and> settled p ?st then 1 else 0)"
    using c unfolding counted_def settled_def by simp
  moreover have "settled p ?st \<longrightarrow> records_of p ?st = {}"
    using records_of_settled [OF o] by blast
  ultimately show ?thesis by simp
qed

lemmas bridge_defs = request_def bridge_method_def sample_bridge_def callback_name_def
  catch_native_def settle_def delete_global_def log_console_def invoke_global_def
  run_callback_def fresh_page_def is_object_arg_def sample_runtime_def sample_parse_def
  sample_values_def json_quote_def json_escape_def Let_def

lemma sample_run_promises:
  "promises (run sample_runtime sample_events (fresh_page (Some sample_bridge))) =
     [Resolved (JStr ''ok''), Rejected (JErr (ErrText ''dead'')), Resolved (JBool True),
      Rejected (JErr (BridgeMissing ''nothing'')), Rejected (JStr ''boom''), Pending]"
  by (simp add: sample_events_def bridge_defs)

lemma sample_run_history:
  "history (run sample_runtime sample_events (fresh_page (Some sample_bridge))) =
     [Registered ''__native_callback_getGameInfo_1000'' 0,
      NativeCall ''getGameInfo'' [JStr ''__native_callback_getGameInfo_1000''],
      Removed ''__native_callback_getGameInfo_1000'' 0,
      Registered ''__native_callback_resetProgress_1001'' 1,
      NativeCall ''resetProgress'' [JStr ''p1'', JStr ''__native_callback_resetProgress_1001''],
      Removed ''__native_callback_resetProgress_1001'' 1,
      Registered ''__native_callback_unlockAll_1002'' 2,
      NativeCall ''unlockAll'' [JStr ''p1'', JStr ''__native_callback_unlockAll_1002''],
      Removed ''__native_callback_unlockAll_1002'' 2,
      Registered ''__native_callback_submitPuzzleAnswer_1004'' 4,
      NativeCall ''submitPuzzleAnswer''
        [JStr (json_text (JObj [(''answer'', JStr ''cat'')])),
         JStr ''__native_callback_submitPuzzleAnswer_1004''],
      Removed ''__native_callback_submitPuzzleAnswer_1004'' 4,
      Registered ''__native_callback_getPlayerPuzzles_1005'' 5,
      NativeCall ''getPlayerPuzzles'' [JStr ''p1'', JStr ''__native_callback_getPlayerPuzzles_1005'']]"
  by (simp add: sample_events_def bridge_defs)


text \<open>
  The sample session: the calls 0 (answered with a result), 1 (throws), 2 (answers at once,
  then throws) and 4 (answered with an error) are settled with one removal each and no
  record left; call 3 failed the precondition check and call 5 is pending, with none.
\<close>

theorem bridge_record_removed_once_witness:
  "settled 0 (run sample_runtime sample_events (fresh_page (Some sample_bridge))) \<and>
   registered 0 (run sample_runtime sample_events (fresh_page (Some sample_bridge))) \<and>
   removals 0 (run sample_runtime sample_events (fresh_page (Some sample_bridge))) = 1 \<and>
   records_of 0 (run sample_runtime sample_events (fresh_page (Some sample_bridge))) = {} \<and>
   settled 1 (run sample_runtime sample_events (fresh_page (Some sample_bridge))) \<and>
   removals 1 (run sample_runtime sample_events (fresh_page (Some sample_bridge))) = 1 \<and>
   records_of 1 (run sample_runtime sample_events (fresh_page (Some sample_bridge))) = {} \<and>
   settled 2 (run sample_runtime sample_events (fresh_page (Some sample_bridge))) \<and>
   removals 2 (run sample_runtime sample_events (fresh_page (Some sample_bridge))) = 1 \<and>
   settled 3 (run sample_runtime sample_events (fresh_page (Some sample_bridge))) \<and>
   removals 3 (run sample_runtime sample_events (fresh_page (Some sample_bridge))) = 0 \<and>
   settled 4 (run sample_runtime sample_events (fresh_page (Some sample_bridge))) \<and>
   removals 4 (run sample_runtime sample_events (fresh_page (Some sample_bridge))) = 1 \<and>
   records_of 4 (run sample_runtime sample_events (fresh_page (Some sample_bridge))) = {} \<and>
   \<not> settled 5 (run sample_runtime sample_events (fresh_page (Some sample_bridge))) \<and>
   removals 5 (run sample_runtime sample_events (fresh_page (Some sample_bridge))) = 0"
  using bridge_record_removed_once [of 0 sample_runtime sample_events "Some sample_bridge"]
    bridge_record_removed_once [of 1 sample_runtime sample_events "Some sample_bridge"]
    bridge_record_removed_once [of 2 sample_runtime sample_events "Some sample_bridge"]
    bridge_record_removed_once [of 3 sample_runtime sample_events "Some sample_bridge"]
    bridge_record_removed_once [of 4 sample_runtime sample_events "Some sample_bridge"]
    bridge_record_removed_once [of 5 sample_runtime sample_events "Some sample_bridge"]
  by (simp add: settled_def registered_def sample_run_promises sample_run_history)

text \<open>
  One call on its own: a native method that throws rejects the promise and leaves no
  callback behind; one that returns leaves the callback registered and the promise
  pending, to be settled by the answer.
\<close>

lemma request_native_throws:
  assumes "bridge_method st methodName = Some f" and "final_args rt args = Inr finalArgs"
    and "calls_back (f (finalArgs @ [JStr (callback_name methodName now)])) = None"
    and "outcome (f (finalArgs @ [JStr (callback_name methodName now)])) = Throws ex"
  shows "promises (fst (request rt now methodName args st)) = promises st @ [Rejected ex] \<and>
         globals (fst (request rt now methodName args st)) (callback_name methodName now) = None \<and>
         snd (request rt now methodName args st) = length (promises st)"
  using assms
  by (simp add: request_def Let_def catch_native_def settle_def delete_global_def log_console_def)

lemma request_native_returns:
  assumes "bridge_method st methodName = Some f" and "final_args rt args = Inr finalArgs"
    and "calls_back (f (finalArgs @ [JStr (callback_name methodName now)])) = None"
    and "outcome (f (finalArgs @ [JStr (callback_name methodName now)])) = Returns"
  shows "promises (fst (request rt now methodName args st)) = promises st @ [Pending] \<and>
         globals (fst (request rt now methodName args st)) (callback_name methodName now) =
           Some \<lparr>cb_promise = length (promises st), cb_method = methodName,
                 cb_name = callback_name methodName now\<rparr> \<and>
         snd (request rt now methodName args st) = length (promises st)"
  using assms by (simp add: request_def Let_def)

lemma request_unavailable:
  assumes "bridge_method st methodName = None"
  shows "request rt now methodName args st =
           (st\<lparr>console := console st @ [E_bridge_missing methodName],
               promises := promises st @ [Rejected (JErr (BridgeMissing methodName))]\<rparr>,
            length (promises st))"
  using assms by (simp add: request_def log_console_def)

lemma bridge_method_None_iff:
  "bridge_method st methodName = None \<longleftrightarrow>
     (android st = None \<or> (\<exists>b. android st = Some b \<and> (\<forall>f. b methodName \<noteq> Function f)))"
  by (auto simp: bridge_method_def split: option.splits member.splits)

text \<open>
  Claim C2. When \<^verbatim>\<open>window.Android\<close> is absent, or the named member is not a function,
  \<open>request\<close> returns a promise that is already rejected with the \<open>Error\<close> whose message
  names the method, and leaves the global callbacks and the registration history as
  they were: the only effect is the line written to the console.
\<close>

theorem request_unavailable_rejects:
  assumes "android st = None \<or> (\<exists>b. android st = Some b \<and> (\<forall>f. b methodName \<noteq> Function f))"
  shows "globals (fst (request rt now methodName args st)) = globals st \<and>
         history (fst (request rt now methodName args st)) = history st \<and>
         android (fst (request rt now methodName args st)) = android st \<and>
         promises (fst (request rt now methodName args st)) =
           promises st @ [Rejected (JErr (BridgeMissing methodName))] \<and>
         snd (request rt now methodName args st) = length (promises st) \<and>
         console (fst (request rt now methodName args st)) =
           console st @ [E_bridge_missing methodName]"
proof -
  from assms have "bridge_method st methodName = None"
    by (simp add: bridge_method_None_iff)
  then show ?thesis by (simp add: request_unavailable)
qed

text \<open>Without a bridge, and with a bridge whose member \<open>version\<close> is not a function.\<close>

theorem request_unavailable_rejects_witness:
  "android (fresh_page None) = None \<and>
   globals (fst (request sample_runtime 1000 ''getGameInfo'' [] (fresh_page None))) = Map.empty \<and>
   history (fst (request sample_runtime 1000 ''getGameInfo'' [] (fresh_page None))) = [] \<and>
   promises (fst (request sample_runtime 1000 ''getGameInfo'' [] (fresh_page None))) =
     [Rejected (JErr (BridgeMissing ''getGameInfo''))] \<and>
   sample_bridge ''version'' = NotFunction \<and>
   globals (fst (request sample_runtime 1000 ''version'' [JObj []] (fresh_page (Some sample_bridge)))) =
     Map.empty \<and>
   promises (fst (request sample_runtime 1000 ''version'' [JObj []] (fresh_page (Some sample_bridge)))) =
     [Rejected (JErr (BridgeMissing ''version''))]"
  using request_unavailable_rejects [of "fresh_page None" "''getGameInfo''" sample_runtime 1000 "[]"]
    request_unavailable_rejects [of "fresh_page (Some sample_bridge)" "''version''"
      sample_runtime 1000 "[JObj []]"]
  by (simp add: fresh_page_def sample_bridge_def)

section \<open>What the native method receives, and how the callback settles\<close>

lemma final_args_forwarded:
  assumes "\<forall>a\<in>set args. is_object_arg a \<longrightarrow> json_stringify rt a = Inr (encode a)"
  shows "final_args rt args = Inr (map (spec_forwarded encode) args)"
  using assms by (induction args) (auto simp: spec_forwarded_def)

lemma native_calls_append [simp]:
  "native_calls (xs @ ys) = native_calls xs @ native_calls ys"
  by (induction xs rule: native_calls.induct) simp_all

lemma native_calls_delete_global [simp]:
  "native_calls (history (delete_global k st)) = native_calls (history st)"
  by (simp add: delete_global_def split: option.splits)

lemma history_settle [simp]: "history (settle p v st) = history st"
  by (simp add: settle_def)

lemma history_log_console [simp]: "history (log_console e st) = history st"
  by (simp add: log_console_def)

lemma native_calls_run_callback [simp]:
  "native_calls (history (run_callback rt cb result error st)) = native_calls (history st)"
  by (simp add: run_callback_eq)

lemma native_calls_invoke_global [simp]:
  "native_calls (history (invoke_global rt name result error st)) = native_calls (history st)"
  by (simp add: invoke_global_def split: option.splits)

lemma native_calls_catch_native [simp]:
  "native_calls (history (catch_native m k p e st)) = native_calls (history st)"
  by (simp add: catch_native_def)

text \<open>
  Claim C8. When the precondition check passes and \<^verbatim>\<open>JSON.stringify\<close> gives every
  object argument its JSON text \<open>encode a\<close>, the native method is called once, with each
  object argument replaced by its JSON text, every other argument as it is, and the
  callback name of this call appended as the last argument.
\<close>

theorem request_forwards_arguments:
  assumes "bridge_method st methodName = Some f"
    and "\<forall>a\<in>set args. is_object_arg a \<longrightarrow> json_stringify rt a = Inr (encode a)"
  shows "native_calls (history (fst (request rt now methodName args st))) =
           native_calls (history st) @
           [(methodName, map (spec_forwarded encode) args @ [JStr (callback_name methodName now)])]"
  using assms(1) final_args_forwarded [OF assms(2)]
  by (simp add: request_def Let_def split: option.splits native_outcome.splits)

text \<open>An object, a string, a number and null, on the sample bridge.\<close>

theorem request_forwards_arguments_witness:
  \<open>bridge_method (fresh_page (Some sample_bridge)) ''submitPuzzleAnswer'' =
     Some (\<lambda>args. \<lparr>calls_back = None, outcome = Returns\<rparr>) \<and>
   is_object_arg (JObj [(''playerId'', JStr ''p1''), (''puzzleId'', JStr ''door''),
                        (''answer'', JStr ''cat'')]) \<and>
   \<not> is_object_arg (JStr ''p1'') \<and> \<not> is_object_arg (JNum 3) \<and> \<not> is_object_arg JNull \<and>
   json_stringify sample_runtime
     (JObj [(''playerId'', JStr ''p1''), (''puzzleId'', JStr ''door''), (''answer'', JStr ''cat'')]) =
     Inr ''{"playerId":"p1","puzzleId":"door","answer":"cat"}'' \<and>
   native_calls (history (fst (request sample_runtime 1700000000000 ''submitPuzzleAnswer''
       [JObj [(''playerId'', JStr ''p1''), (''puzzleId'', JStr ''door''), (''answer'', JStr ''cat'')],
        JStr ''p1'', JNum 3, JNull]
       (fresh_page (Some sample_bridge))))) =
     [(''submitPuzzleAnswer'',
       [JStr ''{"playerId":"p1","puzzleId":"door","answer":"cat"}'',
        JStr ''p1'', JNum 3, JNull,
        JStr ''__native_callback_submitPuzzleAnswer_1700000000000''])]\<close>
  using request_forwards_arguments [of "fresh_page (Some sample_bridge)" "''submitPuzzleAnswer''"
      "\<lambda>args. \<lparr>calls_back = None, outcome = Returns\<rparr>"
      "[JObj [(''playerId'', JStr ''p1''), (''puzzleId'', JStr ''door''), (''answer'', JStr ''cat'')],
        JStr ''p1'', JNum 3, JNull]" sample_runtime json_text 1700000000000]
  by (simp add: bridge_method_def sample_bridge_def fresh_page_def is_object_arg_def
        spec_forwarded_def sample_runtime_def callback_name_def json_quote_def json_escape_def)

text \<open>
  Claim C10. Let a callback be registered under \<open>name\<close> in a page reached by requests and
  native answers. Called with a falsy error it resolves its promise with the result,
  writes nothing to the console and does not depend on \<^verbatim>\<open>JSON.parse\<close> (any other runtime
  \<open>rt'\<close> gives the same page). Called with a truthy error it writes the error to the
  console and rejects with the parsed error, or with the raw error when parsing throws.
\<close>

theorem callback_settles_by_truthiness:
  assumes "globals (run rt evs (fresh_page b)) name = Some cb"
  shows "(\<not> truthy error \<longrightarrow>
            promises (invoke_global rt name result error (run rt evs (fresh_page b))) ! cb_promise cb =
              Resolved result \<and>
            console (invoke_global rt name result error (run rt evs (fresh_page b))) =
              console (run rt evs (fresh_page b)) \<and>
            invoke_global rt' name result error (run rt evs (fresh_page b)) =
              invoke_global rt name result error (run rt evs (fresh_page b))) \<and>
         (truthy error \<longrightarrow>
            promises (invoke_global rt name result error (run rt evs (fresh_page b))) ! cb_promise cb =
              Rejected (case json_parse rt error of Inr parsed \<Rightarrow> parsed | Inl e \<Rightarrow> error) \<and>
            console (invoke_global rt name result error (run rt evs (fresh_page b))) =
              console (run rt evs (fresh_page b)) @ [E_native_api (cb_method cb) error])"
proof -
  let ?st = "run rt evs (fresh_page b)"
  have "owned ?st" using inv_run [OF inv_fresh] by (simp add: page_inv_def)
  from ownedD [OF this assms]
  have cb: "cb_promise cb < length (promises ?st)" "promises ?st ! cb_promise cb = Pending"
    "cb_name cb = name"
    by simp_all
  show ?thesis
    using cb assms
    by (simp add: invoke_global_def run_callback_eq settle_def delete_global_def log_console_def)
qed


lemma sample_parse_boom:
  "json_parse sample_runtime (JStr ''boom'') = Inl (JErr (ErrText ''SyntaxError''))"
  by (simp add: sample_runtime_def sample_parse_def sample_values_def
        json_quote_def json_escape_def show_int_def)

lemma sample_parse_code:
  \<open>json_parse sample_runtime (JStr ''{"code":7}'') = Inr (JObj [(''code'', JNum 7)])\<close>
  by (simp add: sample_runtime_def sample_parse_def sample_values_def
        json_quote_def json_escape_def show_int_def)

lemma sample_run_globals:
  "globals (run sample_runtime sample_events (fresh_page (Some sample_bridge))) ''__native_callback_getPlayerPuzzles_1005'' =
     Some \<lparr>cb_promise = 5, cb_method = ''getPlayerPuzzles'', cb_name = ''__native_callback_getPlayerPuzzles_1005''\<rparr>"
  by (simp add: sample_events_def bridge_defs)

text \<open>
  The pending call of the sample session, answered with the empty string, 0, null and
  undefined as error (resolved), with \<open>boom\<close> (rejected with the raw text) and with the
  JSON text of an object (rejected with the object).
\<close>

theorem callback_settles_by_truthiness_witness:
  \<open>globals (run sample_runtime sample_events (fresh_page (Some sample_bridge))) ''__native_callback_getPlayerPuzzles_1005'' =
     Some \<lparr>cb_promise = 5, cb_method = ''getPlayerPuzzles'', cb_name = ''__native_callback_getPlayerPuzzles_1005''\<rparr> \<and>
   \<not> truthy (JStr []) \<and> \<not> truthy (JNum 0) \<and> \<not> truthy JNull \<and> \<not> truthy JUndefined \<and>
   promises (invoke_global sample_runtime ''__native_callback_getPlayerPuzzles_1005'' (JArr []) (JStr [])
       (run sample_runtime sample_events (fresh_page (Some sample_bridge)))) ! 5 = Resolved (JArr []) \<and>
   promises (invoke_global sample_runtime ''__native_callback_getPlayerPuzzles_1005'' (JArr []) (JNum 0)
       (run sample_runtime sample_events (fresh_page (Some sample_bridge)))) ! 5 = Resolved (JArr []) \<and>
   promises (invoke_global sample_runtime ''__native_callback_getPlayerPuzzles_1005'' (JArr []) JNull
       (run sample_runtime sample_events (fresh_page (Some sample_bridge)))) ! 5 = Resolved (JArr []) \<and>
   promises (invoke_global sample_runtime ''__native_callback_getPlayerPuzzles_1005'' (JArr []) JUndefined
       (run sample_runtime sample_events (fresh_page (Some sample_bridge)))) ! 5 = Resolved (JArr []) \<and>
   truthy (JStr ''boom'') \<and>
   promises (invoke_global sample_runtime ''__native_callback_getPlayerPuzzles_1005'' (JArr []) (JStr ''boom'')
       (run sample_runtime sample_events (fresh_page (Some sample_bridge)))) ! 5 = Rejected (JStr ''boom'') \<and>
   truthy (JStr ''{"code":7}'') \<and>
   promises (invoke_global sample_runtime ''__native_callback_getPlayerPuzzles_1005'' (JArr []) (JStr ''{"code":7}'')
       (run sample_runtime sample_events (fresh_page (Some sample_bridge)))) ! 5 =
     Rejected (JObj [(''code'', JNum 7)])\<close>
  using callback_settles_by_truthiness [OF sample_run_globals,
      where error = "JStr []" and result = "JArr []" and rt' = sample_runtime]
    callback_settles_by_truthiness [OF sample_run_globals,
      where error = "JNum 0" and result = "JArr []" and rt' = sample_runtime]
    callback_settles_by_truthiness [OF sample_run_globals,
      where error = "JNull" and result = "JArr []" and rt' = sample_runtime]
    callback_settles_by_truthiness [OF sample_run_globals,
      where error = "JUndefined" and result = "JArr []" and rt' = sample_runtime]
    callback_settles_by_truthiness [OF sample_run_globals,
      where error = "JStr ''boom''" and result = "JArr []" and rt' = sample_runtime]
    callback_settles_by_truthiness [OF sample_run_globals,
      where error = \<open>JStr ''{"code":7}''\<close> and result = "JArr []" and rt' = sample_runtime]
  by (simp add: sample_run_globals sample_parse_boom sample_parse_code)

section \<open>The HTTP path of the router\<close>

text \<open>
  Claim C4. On the HTTP path (no bridge at construction), when the body of the call, if
  any, has a JSON text and \<^verbatim>\<open>fetch\<close> answers with a response: a status outside 200 to
  299 rejects with the \<open>Error\<close> whose message is
  \<^verbatim>\<open>HTTP error! status: <status>, message: <body text>\<close>; a status inside resolves with
  the parsed body (and rejects with what the parser throws when the body is not JSON,
  which the backend's contract excludes).
\<close>

theorem http_status_decides:
  assumes "\<not> useBridge g"
    and "prepare_body rt (fo_body (fetchOptions r)) = Inr body"
    and "fetch (fetch_request g (fetchUrl r) (fetchOptions r) body) = Responded resp"
  shows "GameAPI_request rt g r now st fetch =
           ViaHttp (request_http rt g (fetchUrl r) (fetchOptions r) fetch) \<and>
         issued (request_http rt g (fetchUrl r) (fetchOptions r) fetch) =
           Some (fetch_request g (fetchUrl r) (fetchOptions r) body) \<and>
         (\<not> response_ok resp \<longrightarrow>
            settles (request_http rt g (fetchUrl r) (fetchOptions r) fetch) =
              Rejects (JErr (ErrText (''HTTP error! status: '' @ show_nat (status resp) @
                                      '', message: '' @ body_text resp)))) \<and>
         (response_ok resp \<longrightarrow>
            settles (request_http rt g (fetchUrl r) (fetchOptions r) fetch) =
              (case json_parse rt (JStr (body_text resp)) of
                 Inr v \<Rightarrow> Resolves v
               | Inl e \<Rightarrow> Rejects e))"
  using assms
  by (simp add: GameAPI_request_def request_http_def fetch_request_def http_error_def Let_def
        split: sum.splits)

lemma sample_parse_room:
  \<open>json_parse sample_runtime (JStr ''{"name":"room"}'') = Inr (JObj [(''name'', JStr ''room'')])\<close>
  by (simp add: sample_runtime_def sample_parse_def sample_values_def
        json_quote_def json_escape_def show_int_def)

text \<open>
  \<open>getGameInfo\<close> without a bridge goes to \<^verbatim>\<open>http://localhost:8080/api/game/info\<close>; a
  500 with body \<open>boom\<close> rejects with status 500 and message \<open>boom\<close>, a 200 with a JSON
  body resolves with the object.
\<close>

theorem http_status_decides_witness:
  \<open>\<not> useBridge sample_api \<and>
   prepare_body sample_runtime (fo_body (fetchOptions getGameInfo)) = Inr None \<and>
   fetch_request sample_api (fetchUrl getGameInfo) (fetchOptions getGameInfo) None =
     \<lparr>hr_url = ''http://localhost:8080/api/game/info'', hr_method = None,
      hr_headers = [(''Content-Type'', ''application/json'')], hr_body = None\<rparr> \<and>
   \<not> response_ok \<lparr>status = 500, body_text = ''boom''\<rparr> \<and>
   settles (request_http sample_runtime sample_api (fetchUrl getGameInfo) (fetchOptions getGameInfo)
              (\<lambda>req. Responded \<lparr>status = 500, body_text = ''boom''\<rparr>)) =
     Rejects (JErr (ErrText ''HTTP error! status: 500, message: boom'')) \<and>
   response_ok \<lparr>status = 200, body_text = ''{"name":"room"}''\<rparr> \<and>
   settles (request_http sample_runtime sample_api (fetchUrl getGameInfo) (fetchOptions getGameInfo)
              (\<lambda>req. Responded \<lparr>status = 200, body_text = ''{"name":"room"}''\<rparr>)) =
     Resolves (JObj [(''name'', JStr ''room'')])\<close>
  using http_status_decides [of sample_api sample_runtime getGameInfo None
      "\<lambda>req. Responded \<lparr>status = 500, body_text = ''boom''\<rparr>"
      "\<lparr>status = 500, body_text = ''boom''\<rparr>"]
    http_status_decides [of sample_api sample_runtime getGameInfo None
      \<open>\<lambda>req. Responded \<lparr>status = 200, body_text = ''{"name":"room"}''\<rparr>\<close>
      \<open>\<lparr>status = 200, body_text = ''{"name":"room"}''\<rparr>\<close>]
  by (simp add: sample_api_def getGameInfo_def prepare_body_def fetch_request_def response_ok_def
        sample_parse_room)

section \<open>The puzzle store and the controller\<close>

lemmas manager_defs = checkAnswer_def checkAnswer_begin_def checkAnswer_replied_def
  undisturbed_def completePuzzle_def loadPlayerPuzzles_def
  initializePuzzles_def read_snapshot_def issue_def mlog_def showError_def showFeedback_def
  getPlayerId_def Let_def

lemma loadPlayerPuzzles_requests [simp]:
  "requests (loadPlayerPuzzles rt fetched m) = requests m @ [getPlayerPuzzles (gameAPI m)]"
  by (simp add: manager_defs split: reply.splits sum.splits)

lemma loadPlayerPuzzles_gameAPI [simp]: "gameAPI (loadPlayerPuzzles rt fetched m) = gameAPI m"
  by (simp add: manager_defs split: reply.splits sum.splits)

lemma loadPlayerPuzzles_current [simp]:
  "currentPuzzleId (loadPlayerPuzzles rt fetched m) = currentPuzzleId m"
  by (simp add: manager_defs split: reply.splits sum.splits)

lemma loadPlayerPuzzles_puzzles:
  "playerPuzzles (loadPlayerPuzzles rt fetched m) =
     (case fetched of Resolves puzzles \<Rightarrow> puzzles | Rejects e \<Rightarrow> playerPuzzles m)"
  by (simp add: manager_defs split: reply.splits sum.splits)

lemma loadPlayerPuzzles_storage:
  "localStorage (loadPlayerPuzzles rt fetched m) =
     (case fetched of
        Rejects e \<Rightarrow> localStorage m
      | Resolves puzzles \<Rightarrow>
          (case json_stringify rt (JObj [(''playerId'', JStr (playerId (gameAPI m))),
                                         (''puzzles'', puzzles)]) of
             Inl e \<Rightarrow> localStorage m
           | Inr text \<Rightarrow> (localStorage m)(''playerPuzzles'' \<mapsto> text)))"
  by (simp add: manager_defs split: reply.splits sum.splits)

lemma completePuzzle_requests:
  "requests (completePuzzle rt puzzleId completed fetched m) =
     requests m @ completePuzzle_request rt (gameAPI m) puzzleId #
       (case completed of Resolves v \<Rightarrow> [getPlayerPuzzles (gameAPI m)] | Rejects e \<Rightarrow> [])"
  by (simp add: completePuzzle_def issue_def mlog_def Let_def split: reply.splits)

lemma completePuzzle_current [simp]:
  "currentPuzzleId (completePuzzle rt puzzleId completed fetched m) = currentPuzzleId m"
  by (simp add: completePuzzle_def issue_def mlog_def Let_def split: reply.splits)

lemma completePuzzle_gameAPI [simp]:
  "gameAPI (completePuzzle rt puzzleId completed fetched m) = gameAPI m"
  by (simp add: completePuzzle_def issue_def mlog_def Let_def split: reply.splits)

lemma loadPlayerPuzzles_among_undisturbed:
  "loadPlayerPuzzles_among rt undisturbed fetched m = loadPlayerPuzzles rt fetched m"
  by (simp add: loadPlayerPuzzles_among_def loadPlayerPuzzles_def undisturbed_def)

lemma completePuzzle_among_undisturbed:
  "completePuzzle_among rt undisturbed undisturbed puzzleId completed fetched m =
     completePuzzle rt puzzleId completed fetched m"
  by (simp add: completePuzzle_among_def completePuzzle_def loadPlayerPuzzles_among_undisturbed
        undisturbed_def Let_def split: reply.splits)



lemma checkAnswer_replied_success:
  assumes "get_prop response ''success'' = Inr success" and "truthy success"
  shows "checkAnswer_replied rt dc dl (Resolves response) completed fetched m1 =
           (completePuzzle_among rt dc dl (currentPuzzleId m1) completed fetched
              (m1\<lparr>puzzleContent := C_success (read_prop response ''message''),
                  feedback := None, input_display := D_none, submit_text := B_next\<rparr>))
           \<lparr>submit_onclick := H_continue (read_prop response ''nextScene'')\<rparr>"
  using assms by (simp add: checkAnswer_replied_def Let_def)


lemma sample_normalized:
  "str_trim sample_runtime (str_toLowerCase sample_runtime ''  CAT '') = ''cat''"
  by (simp add: sample_runtime_def ascii_trim_def ascii_toLowerCase_def ascii_lower_char_def
        ascii_space_def)

lemma sample_begin:
  "checkAnswer_begin sample_runtime sample_manager =
     Some (issue (submitPuzzleAnswer sample_api (JStr ''door'') (JStr ''cat'')) sample_manager)"
  using sample_normalized
  by (simp add: checkAnswer_begin_def sample_manager_def new_manager_def)



text \<open>
  The other cases, in the open. The close button runs \<open>hide\<close> while the submission is
  pending: the reply still reports success, the completion goes out for \<open>null\<close>, and
  the controller is left with the continuation on the button and no current puzzle.
\<close>

lemma checkAnswer_dismissed_while_submitting:
  "requests (checkAnswer sample_runtime (quiet\<lparr>while_submitting := hide\<rparr>)
               (Resolves sample_correct) (Resolves JNull) (Resolves (JArr [])) sample_manager) =
     [submitPuzzleAnswer sample_api (JStr ''door'') (JStr ''cat''),
      completePuzzle_request sample_runtime sample_api JNull,
      getPlayerPuzzles sample_api] \<and>
   currentPuzzleId (checkAnswer sample_runtime (quiet\<lparr>while_submitting := hide\<rparr>)
               (Resolves sample_correct) (Resolves JNull) (Resolves (JArr [])) sample_manager) =
     JNull \<and>
   \<not> spec_resolved (checkAnswer sample_runtime (quiet\<lparr>while_submitting := hide\<rparr>)
               (Resolves sample_correct) (Resolves JNull) (Resolves (JArr [])) sample_manager) \<and>
   submit_onclick (checkAnswer sample_runtime (quiet\<lparr>while_submitting := hide\<rparr>)
               (Resolves sample_correct) (Resolves JNull) (Resolves (JArr [])) sample_manager) =
     H_continue JUndefined"
proof -
  have g: "get_prop sample_correct ''success'' = Inr (JBool True)"
    by (simp add: sample_correct_def)
  have yes: "truthy (JBool True)"
    by simp
  have e: "checkAnswer sample_runtime (quiet\<lparr>while_submitting := hide\<rparr>)
             (Resolves sample_correct) (Resolves JNull) (Resolves (JArr [])) sample_manager =
           checkAnswer_replied sample_runtime undisturbed undisturbed (Resolves sample_correct)
             (Resolves JNull) (Resolves (JArr []))
             (hide (issue (submitPuzzleAnswer sample_api (JStr ''door'') (JStr ''cat''))
                      sample_manager))"
    by (simp add: checkAnswer_def sample_begin quiet_def)
  show ?thesis
    unfolding e checkAnswer_replied_success [OF g yes] completePuzzle_among_undisturbed
    by (simp add: completePuzzle_requests spec_resolved_def hide_def issue_def sample_manager_def
          new_manager_def read_prop_def sample_correct_def)
qed

text \<open>
  The close button runs \<open>hide\<close> while the completion is pending: the completion has gone
  out for the puzzle submitted, and again no puzzle is current at the end.
\<close>

lemma checkAnswer_dismissed_while_completing:
  "requests (checkAnswer sample_runtime (quiet\<lparr>while_completing := hide\<rparr>)
               (Resolves sample_correct) (Resolves JNull) (Resolves (JArr [])) sample_manager) =
     [submitPuzzleAnswer sample_api (JStr ''door'') (JStr ''cat''),
      completePuzzle_request sample_runtime sample_api (JStr ''door''),
      getPlayerPuzzles sample_api] \<and>
   currentPuzzleId (checkAnswer sample_runtime (quiet\<lparr>while_completing := hide\<rparr>)
               (Resolves sample_correct) (Resolves JNull) (Resolves (JArr [])) sample_manager) =
     JNull \<and>
   \<not> spec_resolved (checkAnswer sample_runtime (quiet\<lparr>while_completing := hide\<rparr>)
               (Resolves sample_correct) (Resolves JNull) (Resolves (JArr [])) sample_manager)"
proof -
  have g: "get_prop sample_correct ''success'' = Inr (JBool True)"
    by (simp add: sample_correct_def)
  have yes: "truthy (JBool True)"
    by simp
  have e: "checkAnswer sample_runtime (quiet\<lparr>while_completing := hide\<rparr>)
             (Resolves sample_correct) (Resolves JNull) (Resolves (JArr [])) sample_manager =
           checkAnswer_replied sample_runtime hide undisturbed (Resolves sample_correct)
             (Resolves JNull) (Resolves (JArr []))
             (issue (submitPuzzleAnswer sample_api (JStr ''door'') (JStr ''cat'')) sample_manager)"
    by (simp add: checkAnswer_def sample_begin quiet_def undisturbed_def)
  show ?thesis
    unfolding e checkAnswer_replied_success [OF g yes]
    by (simp add: completePuzzle_among_def loadPlayerPuzzles_among_undisturbed spec_resolved_def
          hide_def issue_def mlog_def sample_manager_def new_manager_def Let_def)
qed

text \<open>
  Claim C3. Let \<open>localStorage\<close> hold a snapshot that parses to an object with owner
  \<open>owner\<close> and an array of puzzles. If the current player is the owner, initialization
  puts exactly that array in memory, issues no request and leaves the storage alone.
  Otherwise initialization is the load from the server and nothing else: it issues
  \<open>getPlayerPuzzles\<close>; the list in memory becomes the fetched one, or stays what it was
  (empty, after the constructor) when the fetch fails; the persisted text is replaced by
  the current player's snapshot when the fetch succeeds and is left in place, unread,
  when it fails.
\<close>

theorem initialize_restores_own_snapshot:
  assumes "localStorage m ''playerPuzzles'' = Some saved" and "saved \<noteq> []"
    and "json_parse rt (JStr saved) = Inr savedData"
    and "get_prop savedData ''playerId'' = Inr (JStr owner)"
    and "get_prop savedData ''puzzles'' = Inr (JArr puzzles)"
  shows "(getPlayerId (gameAPI m) = owner \<longrightarrow>
            playerPuzzles (initializePuzzles rt fetched m) = JArr puzzles \<and>
            requests (initializePuzzles rt fetched m) = requests m \<and>
            localStorage (initializePuzzles rt fetched m) = localStorage m) \<and>
         (getPlayerId (gameAPI m) \<noteq> owner \<longrightarrow>
            initializePuzzles rt fetched m = loadPlayerPuzzles rt fetched (mlog L_fetching m) \<and>
            requests (initializePuzzles rt fetched m) =
              requests m @ [getPlayerPuzzles (gameAPI m)] \<and>
            playerPuzzles (initializePuzzles rt fetched m) =
              (case fetched of Resolves list \<Rightarrow> list | Rejects e \<Rightarrow> playerPuzzles m) \<and>
            localStorage (initializePuzzles rt fetched m) =
              (case fetched of
                 Rejects e \<Rightarrow> localStorage m
               | Resolves list \<Rightarrow>
                   (case json_stringify rt (JObj [(''playerId'', JStr (playerId (gameAPI m))),
                                                  (''puzzles'', list)]) of
                      Inl e \<Rightarrow> localStorage m
                    | Inr text \<Rightarrow> (localStorage m)(''playerPuzzles'' \<mapsto> text))))"
  using assms
  by (simp add: initializePuzzles_def read_snapshot_def getPlayerId_def Let_def
        loadPlayerPuzzles_puzzles loadPlayerPuzzles_storage mlog_def
        split: reply.splits sum.splits)

lemma new_manager_fields:
  "gameAPI (new_manager g store) = g"
  "localStorage (new_manager g store) = store"
  "playerPuzzles (new_manager g store) = JArr []"
  "currentPuzzleId (new_manager g store) = JNull"
  "requests (new_manager g store) = []"
  by (simp_all add: new_manager_def)

lemma sample_snapshot_parse:
  "json_parse sample_runtime (JStr sample_snapshot) = Inr (sample_values ! 0)"
  by (simp add: sample_snapshot_def sample_runtime_def sample_parse_def sample_values_def
        json_quote_def json_escape_def show_int_def)

lemma sample_snapshot_nonempty: "sample_snapshot \<noteq> []"
  by (simp add: sample_snapshot_def sample_values_def)

lemma sample_snapshot_text:
  \<open>sample_snapshot = ''{"playerId":"p1","puzzles":[{"id":"door","isCompleted":false}]}''\<close>
  by (simp add: sample_snapshot_def sample_values_def json_quote_def json_escape_def)

text \<open>The snapshot of \<open>p1\<close>, read by \<open>p1\<close> and by \<open>p2\<close> (fetch answered, fetch failed).\<close>

theorem initialize_restores_own_snapshot_witness:
  \<open>localStorage (new_manager sample_api [''playerPuzzles'' \<mapsto> sample_snapshot]) ''playerPuzzles'' =
     Some sample_snapshot \<and>
   sample_snapshot = ''{"playerId":"p1","puzzles":[{"id":"door","isCompleted":false}]}'' \<and>
   sample_snapshot \<noteq> [] \<and>
   json_parse sample_runtime (JStr sample_snapshot) = Inr (sample_values ! 0) \<and>
   get_prop (sample_values ! 0) ''playerId'' = Inr (JStr ''p1'') \<and>
   get_prop (sample_values ! 0) ''puzzles'' =
     Inr (JArr [JObj [(''id'', JStr ''door''), (''isCompleted'', JBool False)]]) \<and>
   getPlayerId sample_api = ''p1'' \<and>
   playerPuzzles (initializePuzzles sample_runtime (Resolves (JArr []))
                    (new_manager sample_api [''playerPuzzles'' \<mapsto> sample_snapshot])) =
     JArr [JObj [(''id'', JStr ''door''), (''isCompleted'', JBool False)]] \<and>
   requests (initializePuzzles sample_runtime (Resolves (JArr []))
               (new_manager sample_api [''playerPuzzles'' \<mapsto> sample_snapshot])) = [] \<and>
   getPlayerId (sample_api\<lparr>playerId := ''p2''\<rparr>) = ''p2'' \<and>
   playerPuzzles (initializePuzzles sample_runtime (Resolves (JArr [JObj [(''id'', JStr ''key'')]]))
                    (new_manager (sample_api\<lparr>playerId := ''p2''\<rparr>)
                       [''playerPuzzles'' \<mapsto> sample_snapshot])) =
     JArr [JObj [(''id'', JStr ''key'')]] \<and>
   playerPuzzles (initializePuzzles sample_runtime (Rejects (JStr ''offline''))
                    (new_manager (sample_api\<lparr>playerId := ''p2''\<rparr>)
                       [''playerPuzzles'' \<mapsto> sample_snapshot])) = JArr [] \<and>
   requests (initializePuzzles sample_runtime (Rejects (JStr ''offline''))
               (new_manager (sample_api\<lparr>playerId := ''p2''\<rparr>)
                  [''playerPuzzles'' \<mapsto> sample_snapshot])) =
     [getPlayerPuzzles (sample_api\<lparr>playerId := ''p2''\<rparr>)]\<close>
proof -
  have p: "get_prop (sample_values ! 0) ''playerId'' = Inr (JStr ''p1'')"
    "get_prop (sample_values ! 0) ''puzzles'' =
       Inr (JArr [JObj [(''id'', JStr ''door''), (''isCompleted'', JBool False)]])"
    by (simp_all add: sample_values_def)
  have s: "\<And>g. localStorage (new_manager g [''playerPuzzles'' \<mapsto> sample_snapshot]) ''playerPuzzles'' =
     Some sample_snapshot"
    by (simp add: new_manager_fields)
  note t = initialize_restores_own_snapshot [OF s sample_snapshot_nonempty sample_snapshot_parse p]
  have own: "playerPuzzles (initializePuzzles sample_runtime (Resolves (JArr []))
                    (new_manager sample_api [''playerPuzzles'' \<mapsto> sample_snapshot])) =
     JArr [JObj [(''id'', JStr ''door''), (''isCompleted'', JBool False)]] \<and>
   requests (initializePuzzles sample_runtime (Resolves (JArr []))
               (new_manager sample_api [''playerPuzzles'' \<mapsto> sample_snapshot])) = []"
    using t [of sample_api "Resolves (JArr [])", THEN conjunct1]
    by (simp add: new_manager_fields sample_api_def getPlayerId_def)
  have other1: "playerPuzzles (initializePuzzles sample_runtime (Resolves (JArr [JObj [(''id'', JStr ''key'')]]))
                    (new_manager (sample_api\<lparr>playerId := ''p2''\<rparr>)
                       [''playerPuzzles'' \<mapsto> sample_snapshot])) =
     JArr [JObj [(''id'', JStr ''key'')]]"
    using t [of "sample_api\<lparr>playerId := ''p2''\<rparr>" "Resolves (JArr [JObj [(''id'', JStr ''key'')]])",
        THEN conjunct2]
    by (simp add: new_manager_fields sample_api_def getPlayerId_def loadPlayerPuzzles_puzzles
          mlog_def)
  have other2: "playerPuzzles (initializePuzzles sample_runtime (Rejects (JStr ''offline''))
                    (new_manager (sample_api\<lparr>playerId := ''p2''\<rparr>)
                       [''playerPuzzles'' \<mapsto> sample_snapshot])) = JArr [] \<and>
   requests (initializePuzzles sample_runtime (Rejects (JStr ''offline''))
               (new_manager (sample_api\<lparr>playerId := ''p2''\<rparr>)
                  [''playerPuzzles'' \<mapsto> sample_snapshot])) =
     [getPlayerPuzzles (sample_api\<lparr>playerId := ''p2''\<rparr>)]"
    using t [of "sample_api\<lparr>playerId := ''p2''\<rparr>" "Rejects (JStr ''offline'')", THEN conjunct2]
    by (simp add: new_manager_fields sample_api_def getPlayerId_def loadPlayerPuzzles_puzzles
          mlog_def)
  show ?thesis
    using own other1 other2 p sample_snapshot_nonempty sample_snapshot_parse
      sample_snapshot_text [symmetric]
    by (simp add: new_manager_fields getPlayerId_def sample_api_def)
qed

text \<open>
  Claim C7, as the code has it. \<open>completePuzzle\<close> first issues the completion request.
  When that call resolves, and only then, it issues \<open>getPlayerPuzzles\<close>; when this fetch
  resolves the list in memory is the fetched list as a whole, and the persisted
  snapshot is its JSON text under the current player (when it has one). When the
  completion call rejects, no refresh is issued and both snapshots stay as they were.
  The list is never edited in place.
\<close>

theorem completePuzzle_then_refresh:
  "requests (completePuzzle rt puzzleId completed fetched m) =
     requests m @ completePuzzle_request rt (gameAPI m) puzzleId #
       (case completed of Resolves v \<Rightarrow> [getPlayerPuzzles (gameAPI m)] | Rejects e \<Rightarrow> []) \<and>
   playerPuzzles (completePuzzle rt puzzleId completed fetched m) =
     (case completed of
        Rejects e \<Rightarrow> playerPuzzles m
      | Resolves v \<Rightarrow> (case fetched of Resolves list \<Rightarrow> list | Rejects e \<Rightarrow> playerPuzzles m)) \<and>
   localStorage (completePuzzle rt puzzleId completed fetched m) =
     (case completed of
        Rejects e \<Rightarrow> localStorage m
      | Resolves v \<Rightarrow>
          (case fetched of
             Rejects e \<Rightarrow> localStorage m
           | Resolves list \<Rightarrow>
               (case json_stringify rt (JObj [(''playerId'', JStr (playerId (gameAPI m))),
                                              (''puzzles'', list)]) of
                  Inl e \<Rightarrow> localStorage m
                | Inr text \<Rightarrow> (localStorage m)(''playerPuzzles'' \<mapsto> text))))"
  by (simp add: completePuzzle_requests)
     (simp add: completePuzzle_def issue_def mlog_def Let_def loadPlayerPuzzles_puzzles
        loadPlayerPuzzles_storage split: reply.splits sum.splits)

text \<open>Completion and refresh both answered: two requests, both snapshots replaced.\<close>

theorem completePuzzle_then_refresh_witness:
  \<open>requests (completePuzzle sample_runtime (JStr ''door'') (Resolves JNull)
               (Resolves (JArr [JObj [(''id'', JStr ''door''), (''isCompleted'', JBool True)]]))
               sample_manager) =
     [completePuzzle_request sample_runtime sample_api (JStr ''door''), getPlayerPuzzles sample_api] \<and>
   fetchUrl (completePuzzle_request sample_runtime sample_api (JStr ''door'')) =
     ''/game/complete-puzzle?playerId=p1&puzzleId=door'' \<and>
   playerPuzzles (completePuzzle sample_runtime (JStr ''door'') (Resolves JNull)
               (Resolves (JArr [JObj [(''id'', JStr ''door''), (''isCompleted'', JBool True)]]))
               sample_manager) =
     JArr [JObj [(''id'', JStr ''door''), (''isCompleted'', JBool True)]] \<and>
   localStorage (completePuzzle sample_runtime (JStr ''door'') (Resolves JNull)
               (Resolves (JArr [JObj [(''id'', JStr ''door''), (''isCompleted'', JBool True)]]))
               sample_manager) ''playerPuzzles'' =
     Some ''{"playerId":"p1","puzzles":[{"id":"door","isCompleted":true}]}''\<close>
  using completePuzzle_then_refresh [of sample_runtime "JStr ''door''" "Resolves JNull"
      "Resolves (JArr [JObj [(''id'', JStr ''door''), (''isCompleted'', JBool True)]])" sample_manager]
  by (simp add: sample_manager_def new_manager_def sample_api_def sample_runtime_def
        completePuzzle_request_def json_quote_def json_escape_def)

text \<open>
  Against claim C7 as stated (a refresh follows unconditionally): when the completion
  call is rejected, the only request issued is the completion; no refresh follows.
\<close>

theorem completePuzzle_failure_skips_refresh:
  "requests (completePuzzle sample_runtime (JStr ''door'') (Rejects (JStr ''offline''))
               (Resolves (JArr [])) sample_manager) =
     [completePuzzle_request sample_runtime sample_api (JStr ''door'')] \<and>
   getPlayerPuzzles sample_api \<notin>
     set (requests (completePuzzle sample_runtime (JStr ''door'') (Rejects (JStr ''offline''))
                      (Resolves (JArr [])) sample_manager)) \<and>
   playerPuzzles (completePuzzle sample_runtime (JStr ''door'') (Rejects (JStr ''offline''))
                    (Resolves (JArr [])) sample_manager) = playerPuzzles sample_manager \<and>
   localStorage (completePuzzle sample_runtime (JStr ''door'') (Rejects (JStr ''offline''))
                   (Resolves (JArr [])) sample_manager) = localStorage sample_manager"
  by (simp add: completePuzzle_def issue_def mlog_def Let_def sample_manager_def new_manager_def
        completePuzzle_request_def getPlayerPuzzles_def)

text \<open>
  A failed load and a failed submission end in the error view; a failed completion is
  written to the console and nothing else.
\<close>

lemma load_failure_shown:
  "modalTitle (loadPlayerPuzzles rt (Rejects e) m) = T_error \<and>
   puzzleContent (loadPlayerPuzzles rt (Rejects e) m) = C_message M_load_failed \<and>
   modal_shown (loadPlayerPuzzles rt (Rejects e) m)"
  by (simp add: loadPlayerPuzzles_def showError_def mlog_def issue_def Let_def)

lemma submit_failure_shown:
  "truthy (currentPuzzleId m) \<Longrightarrow>
   modalTitle (checkAnswer rt w (Rejects e) completed fetched m) = T_error \<and>
   puzzleContent (checkAnswer rt w (Rejects e) completed fetched m) =
     C_message M_check_failed \<and>
   modal_shown (checkAnswer rt w (Rejects e) completed fetched m)"
  by (simp add: checkAnswer_def checkAnswer_begin_def checkAnswer_replied_def showError_def
        mlog_def Let_def)

lemma complete_failure_logged_only:
  "completePuzzle rt puzzleId (Rejects e) fetched m =
     m\<lparr>requests := requests m @ [completePuzzle_request rt (gameAPI m) puzzleId],
       mconsole := mconsole m @ [E_complete_failed e]\<rparr>"
  by (simp add: completePuzzle_def issue_def mlog_def Let_def)

text \<open>
  Claim C6 does not hold of the code: after a correct answer whose completion call is
  rejected (nothing else running meanwhile), the modal still shows the success paragraph
  and the Next button, the title is not the error title, and the failure is only on the
  console.
\<close>

theorem complete_failure_not_shown:
  "modalTitle (checkAnswer sample_runtime quiet (Resolves sample_correct) (Rejects (JStr ''offline''))
                 (Resolves (JArr [])) sample_manager) = T_initial \<and>
   puzzleContent (checkAnswer sample_runtime quiet (Resolves sample_correct) (Rejects (JStr ''offline''))
                    (Resolves (JArr [])) sample_manager) = C_success (JStr ''Correct!'') \<and>
   submit_text (checkAnswer sample_runtime quiet (Resolves sample_correct) (Rejects (JStr ''offline''))
                  (Resolves (JArr [])) sample_manager) = B_next \<and>
   mconsole (checkAnswer sample_runtime quiet (Resolves sample_correct) (Rejects (JStr ''offline''))
               (Resolves (JArr [])) sample_manager) = [E_complete_failed (JStr ''offline'')] \<and>
   modalTitle (completePuzzle sample_runtime (JStr ''door'') (Rejects (JStr ''offline''))
                 (Resolves (JArr [])) sample_manager) = modalTitle sample_manager \<and>
   puzzleContent (completePuzzle sample_runtime (JStr ''door'') (Rejects (JStr ''offline''))
                 (Resolves (JArr [])) sample_manager) = puzzleContent sample_manager"
proof -
  have g: "get_prop sample_correct ''success'' = Inr (JBool True)"
    by (simp add: sample_correct_def)
  have yes: "truthy (JBool True)"
    by simp
  have e: "checkAnswer sample_runtime quiet (Resolves sample_correct)
             (Rejects (JStr ''offline'')) (Resolves (JArr [])) sample_manager =
           checkAnswer_replied sample_runtime undisturbed undisturbed (Resolves sample_correct)
             (Rejects (JStr ''offline'')) (Resolves (JArr []))
             (issue (submitPuzzleAnswer sample_api (JStr ''door'') (JStr ''cat''))
                sample_manager)"
    by (simp add: checkAnswer_def sample_begin quiet_def)
       (simp add: undisturbed_def)
  show ?thesis
    unfolding e checkAnswer_replied_success [OF g yes] completePuzzle_among_undisturbed
    by (simp add: complete_failure_logged_only issue_def sample_manager_def new_manager_def
          sample_correct_def read_prop_def)
qed

text \<open>
  Claim C9. Whatever the state, \<open>hide\<close> leaves no current puzzle and the modal closed;
  running it twice is running it once; it issues no request; and on a manager that is
  already idle and closed it changes nothing.
\<close>

theorem hide_returns_to_idle:
  "currentPuzzleId (hide m) = JNull \<and> \<not> truthy (currentPuzzleId (hide m)) \<and>
   modal_shown (hide m) = False \<and> hide (hide m) = hide m \<and>
   requests (hide m) = requests m \<and>
   hide (m\<lparr>currentPuzzleId := JNull, modal_shown := False\<rparr>) =
     m\<lparr>currentPuzzleId := JNull, modal_shown := False\<rparr>"
  by (simp add: hide_def)

end
